theory Spec2Isabelle
  imports Main
begin

section \<open>Python values, errors and strings\<close>

text \<open>
  The script \<^verbatim>\<open>scripts/1a_init.py\<close> handles three kinds of data: JSON documents
  (the model index, \<^verbatim>\<open>init/init.json\<close>, \<^verbatim>\<open>config.json\<close>), \<^verbatim>\<open>pathlib\<close> paths and
  the process environment. A JSON document is the value \<^verbatim>\<open>json.loads\<close> returns: a
  Python dict keeps its keys in insertion order, so an object is an association list with
  distinct keys. A Python \<^verbatim>\<open>str\<close> is held as its UTF-8 bytes: the script tests prefixes
  against ASCII text, drops a leading \<^verbatim>\<open>/\<close>, splits at \<^verbatim>\<open>/\<close> and concatenates, which
  act on the bytes as they act on the characters. A float is held as the text
  \<^verbatim>\<open>json.dumps\<close> writes for it (its \<^verbatim>\<open>repr\<close>, or \<^verbatim>\<open>NaN\<close>, \<^verbatim>\<open>Infinity\<close>,
  \<^verbatim>\<open>-Infinity\<close>).
\<close>

datatype json =
    JNull
  | JBool bool
  | JNum int
  | JFloat string
  | JStr string
  | JArr "json list"
  | JObj "(string \<times> json) list"

datatype pyerror =
    KeyError string
  | TypeError
  | AttributeError
  | ValueError
  | JSONDecodeError
  | FileNotFoundError
  | FileExistsError
  | IsADirectoryError
  | NotADirectoryError
  | CalledProcessError int
  | ExternalError string
  | Unsupported

text \<open>Truth value of a Python object, as \<^verbatim>\<open>if data.get(...)\<close> and \<^verbatim>\<open>environ.get(...)\<close> test it.\<close>

fun truthy :: "json \<Rightarrow> bool" where
  "truthy JNull = False"
| "truthy (JBool b) = b"
| "truthy (JNum n) = (n \<noteq> 0)"
| "truthy (JFloat r) = (r \<noteq> ''0.0'' \<and> r \<noteq> ''-0.0'')"
| "truthy (JStr s) = (s \<noteq> [])"
| "truthy (JArr xs) = (xs \<noteq> [])"
| "truthy (JObj kvs) = (kvs \<noteq> [])"

text \<open>\<^verbatim>\<open>obj[key]\<close> with a string key: only a dict answers, and a missing key raises.\<close>

fun py_getitem :: "json \<Rightarrow> string \<Rightarrow> pyerror + json" where
  "py_getitem (JObj kvs) k = (case map_of kvs k of None \<Rightarrow> Inl (KeyError k) | Some v \<Rightarrow> Inr v)"
| "py_getitem _ k = Inl TypeError"

text \<open>\<^verbatim>\<open>obj.get(key)\<close>: a method of dict only; a missing key gives \<^verbatim>\<open>None\<close>.\<close>

fun dict_get :: "json \<Rightarrow> string \<Rightarrow> pyerror + json" where
  "dict_get (JObj kvs) k = Inr (case map_of kvs k of None \<Rightarrow> JNull | Some v \<Rightarrow> v)"
| "dict_get _ k = Inl AttributeError"

text \<open>
  The characters of a string: a byte that continues a UTF-8 sequence stays with the
  byte before it.
\<close>

definition is_continuation :: "char \<Rightarrow> bool" where
  "is_continuation c = ((128::nat) \<le> of_char c \<and> of_char c < (192::nat))"

fun characters :: "string \<Rightarrow> string list" where
  "characters [] = []"
| "characters (c # cs) =
     (case characters cs of
        [] \<Rightarrow> [[c]]
      | g # gs \<Rightarrow>
          (case g of
             [] \<Rightarrow> [c] # gs
           | d # _ \<Rightarrow> if is_continuation d then (c # g) # gs else [c] # g # gs))"

text \<open>\<^verbatim>\<open>for x in obj\<close>: a list gives its items, a dict its keys, a string its characters.\<close>

fun py_iter :: "json \<Rightarrow> pyerror + json list" where
  "py_iter (JArr xs) = Inr xs"
| "py_iter (JObj kvs) = Inr (map (\<lambda>kv. JStr (fst kv)) kvs)"
| "py_iter (JStr s) = Inr (map JStr (characters s))"
| "py_iter _ = Inl TypeError"

text \<open>A value used through a \<^verbatim>\<open>str\<close> method (\<^verbatim>\<open>.startswith\<close>): anything else has no such attribute.\<close>

fun str_method :: "json \<Rightarrow> pyerror + string" where
  "str_method (JStr s) = Inr s"
| "str_method _ = Inl AttributeError"

definition startswith :: "string \<Rightarrow> string \<Rightarrow> bool" where
  "startswith s p = (take (length p) s = p)"

fun join_sep :: "string \<Rightarrow> string list \<Rightarrow> string" where
  "join_sep sep [] = []"
| "join_sep sep [x] = x"
| "join_sep sep (x # y # ys) = x @ sep @ join_sep sep (y # ys)"

fun split_on :: "char \<Rightarrow> string \<Rightarrow> string list" where
  "split_on d [] = [[]]"
| "split_on d (c # cs) =
     (if c = d then [] # split_on d cs
      else (case split_on d cs of [] \<Rightarrow> [[c]] | w # ws \<Rightarrow> (c # w) # ws))"

text \<open>\<^verbatim>\<open>" ".join(arg_list)\<close> accepts strings only.\<close>

fun as_strs :: "json list \<Rightarrow> pyerror + string list" where
  "as_strs [] = Inr []"
| "as_strs (JStr s # xs) = (case as_strs xs of Inl e \<Rightarrow> Inl e | Inr ss \<Rightarrow> Inr (s # ss))"
| "as_strs (_ # xs) = Inl TypeError"

subsection \<open>Decimal and hexadecimal digits\<close>

definition digit_char :: "nat \<Rightarrow> char" where
  "digit_char d = (if d < 10 then char_of (48 + d) else char_of (87 + d))"

function show_nat :: "nat \<Rightarrow> string" where
  "show_nat n = (if n < 10 then [digit_char n] else show_nat (n div 10) @ [digit_char (n mod 10)])"
  by pat_completeness auto
termination
  by (relation "measure id") auto

declare show_nat.simps [simp del]

definition show_int :: "int \<Rightarrow> string" where
  "show_int i = (if i < 0 then CHR ''-'' # show_nat (nat (- i)) else show_nat (nat i))"

definition hex4 :: "nat \<Rightarrow> string" where
  "hex4 n =
     [digit_char ((n div 4096) mod 16), digit_char ((n div 256) mod 16),
      digit_char ((n div 16) mod 16), digit_char (n mod 16)]"

definition hex_value :: "char \<Rightarrow> nat option" where
  "hex_value c =
     (let n = (of_char c :: nat)
      in if 48 \<le> n \<and> n \<le> 57 then Some (n - 48)
         else if 97 \<le> n \<and> n \<le> 102 then Some (n - 87)
         else if 65 \<le> n \<and> n \<le> 70 then Some (n - 55)
         else None)"

subsection \<open>Code points and UTF-8\<close>

definition utf8_encode :: "nat \<Rightarrow> string" where
  "utf8_encode cp =
     (if cp < 128 then [char_of cp]
      else if cp < 2048 then [char_of (192 + cp div 64), char_of (128 + cp mod 64)]
      else if cp < 65536 then
        [char_of (224 + cp div 4096), char_of (128 + (cp div 64) mod 64), char_of (128 + cp mod 64)]
      else
        [char_of (240 + cp div 262144), char_of (128 + (cp div 4096) mod 64),
         char_of (128 + (cp div 64) mod 64), char_of (128 + cp mod 64)])"

text \<open>
  The code points of a string. A byte that starts no complete sequence does not occur in
  the bytes of a \<^verbatim>\<open>str\<close>; it is read as the code point of its own value.
\<close>

fun code_points :: "string \<Rightarrow> nat list" where
  "code_points [] = []"
| "code_points [a] = [of_char a]"
| "code_points [a, b] =
     (if (192::nat) \<le> of_char a \<and> of_char a < (224::nat) \<and> is_continuation b
      then [(of_char a - 192) * 64 + (of_char b - 128)]
      else of_char a # code_points [b])"
| "code_points [a, b, c] =
     (if (192::nat) \<le> of_char a \<and> of_char a < (224::nat) \<and> is_continuation b
      then ((of_char a - 192) * 64 + (of_char b - 128)) # code_points [c]
      else if (224::nat) \<le> of_char a \<and> of_char a < (240::nat) \<and> is_continuation b \<and> is_continuation c
      then [(of_char a - 224) * 4096 + (of_char b - 128) * 64 + (of_char c - 128)]
      else of_char a # code_points [b, c])"
| "code_points (a # b # c # d # rest) =
     (if (192::nat) \<le> of_char a \<and> of_char a < (224::nat) \<and> is_continuation b
      then ((of_char a - 192) * 64 + (of_char b - 128)) # code_points (c # d # rest)
      else if (224::nat) \<le> of_char a \<and> of_char a < (240::nat) \<and> is_continuation b \<and> is_continuation c
      then ((of_char a - 224) * 4096 + (of_char b - 128) * 64 + (of_char c - 128))
             # code_points (d # rest)
      else if (240::nat) \<le> of_char a \<and> is_continuation b \<and> is_continuation c \<and> is_continuation d
      then ((of_char a - 240) * 262144 + (of_char b - 128) * 4096 + (of_char c - 128) * 64
              + (of_char d - 128)) # code_points rest
      else of_char a # code_points (b # c # d # rest))"

subsection \<open>\<^verbatim>\<open>json.dumps\<close> with its default settings\<close>

definition dquote :: char where
  "dquote = CHR 0x22"

definition backslash :: char where
  "backslash = CHR 0x5C"

text \<open>
  \<^verbatim>\<open>ensure_ascii\<close> is on by default: the quote and the backslash are escaped, the five
  short escapes are used, and every other character outside \<^verbatim>\<open>' '..'~'\<close> is written
  \<^verbatim>\<open>\uxxxx\<close>, as a surrogate pair beyond the basic plane.
\<close>

definition json_escape :: "nat \<Rightarrow> string" where
  "json_escape cp =
     (if cp = 34 then [backslash, dquote]
      else if cp = 92 then [backslash, backslash]
      else if cp = 10 then [backslash, CHR ''n'']
      else if cp = 13 then [backslash, CHR ''r'']
      else if cp = 9 then [backslash, CHR ''t'']
      else if cp = 8 then [backslash, CHR ''b'']
      else if cp = 12 then [backslash, CHR ''f'']
      else if 32 \<le> cp \<and> cp \<le> 126 then [char_of cp]
      else if cp < 65536 then [backslash, CHR ''u''] @ hex4 cp
      else [backslash, CHR ''u''] @ hex4 (55296 + (cp - 65536) div 1024)
           @ [backslash, CHR ''u''] @ hex4 (56320 + (cp - 65536) mod 1024))"

definition json_quote :: "string \<Rightarrow> string" where
  "json_quote s = dquote # concat (map json_escape (code_points s)) @ [dquote]"

fun dumps :: "json \<Rightarrow> string" where
  "dumps JNull = ''null''"
| "dumps (JBool b) = (if b then ''true'' else ''false'')"
| "dumps (JNum n) = show_int n"
| "dumps (JFloat r) = r"
| "dumps (JStr s) = json_quote s"
| "dumps (JArr xs) = ''['' @ join_sep '', '' (map dumps xs) @ '']''"
| "dumps (JObj kvs) =
     ''{'' @ join_sep '', '' (map (\<lambda>kv. json_quote (fst kv) @ '': '' @ dumps (snd kv)) kvs) @ ''}''"

subsection \<open>\<^verbatim>\<open>str()\<close> of a value that is not a string\<close>

text \<open>
  \<^verbatim>\<open>str()\<close> of \<^verbatim>\<open>None\<close>, a bool, a number, a list or a dict, with \<^verbatim>\<open>repr\<close> for the
  strings inside a list or dict; characters beyond ASCII are taken to be printable.
\<close>

definition squote :: char where
  "squote = CHR 0x27"

definition hex2 :: "nat \<Rightarrow> string" where
  "hex2 n = [digit_char ((n div 16) mod 16), digit_char (n mod 16)]"

definition repr_escape :: "char \<Rightarrow> char \<Rightarrow> string" where
  "repr_escape q c =
     (if c = q \<or> c = backslash then [backslash, c]
      else if c = CHR 0x09 then [backslash, CHR ''t'']
      else if c = CHR 0x0A then [backslash, CHR ''n'']
      else if c = CHR 0x0D then [backslash, CHR ''r'']
      else if of_char c < (32::nat) \<or> of_char c = (127::nat)
        then [backslash, CHR ''x''] @ hex2 (of_char c)
      else [c])"

definition repr_str :: "string \<Rightarrow> string" where
  "repr_str s =
     (let q = (if squote \<in> set s \<and> dquote \<notin> set s then dquote else squote)
      in q # concat (map (repr_escape q) s) @ [q])"

definition repr_float :: "string \<Rightarrow> string" where
  "repr_float r =
     (if r = ''NaN'' then ''nan''
      else if r = ''Infinity'' then ''inf''
      else if r = ''-Infinity'' then ''-inf''
      else r)"

fun py_repr :: "json \<Rightarrow> string" where
  "py_repr JNull = ''None''"
| "py_repr (JBool b) = (if b then ''True'' else ''False'')"
| "py_repr (JNum n) = show_int n"
| "py_repr (JFloat r) = repr_float r"
| "py_repr (JStr s) = repr_str s"
| "py_repr (JArr xs) = ''['' @ join_sep '', '' (map py_repr xs) @ '']''"
| "py_repr (JObj kvs) =
     ''{'' @ join_sep '', '' (map (\<lambda>kv. repr_str (fst kv) @ '': '' @ py_repr (snd kv)) kvs) @ ''}''"

subsection \<open>\<^verbatim>\<open>json.loads\<close> on documents without float literals\<close>

text \<open>
  The scanner of the \<^verbatim>\<open>json\<close> module for every document but one kind: a number with a
  fraction or an exponent, whose value as a float (and so the text \<^verbatim>\<open>json.dumps\<close> writes
  for it) is not computed here. Such a document is answered with \<open>Unsupported\<close>, which
  is no exception of Python's. This function only serves the concrete runs at the end of
  the definitions, whose documents hold no such number; the script itself is modelled
  against any \<^verbatim>\<open>json\<close> module.
\<close>

definition is_ws :: "char \<Rightarrow> bool" where
  "is_ws c = (c = CHR '' '' \<or> c = CHR 0x09 \<or> c = CHR 0x0A \<or> c = CHR 0x0D)"

definition skip_ws :: "string \<Rightarrow> string" where
  "skip_ws s = dropWhile is_ws s"

definition is_digit :: "char \<Rightarrow> bool" where
  "is_digit c = ((48::nat) \<le> of_char c \<and> of_char c \<le> (57::nat))"

definition decimal :: "string \<Rightarrow> int" where
  "decimal ds = foldl (\<lambda>a c. 10 * a + int (of_char c - 48)) 0 ds"

text \<open>A dict assignment: a key seen before keeps its place and takes the new value.\<close>

fun dict_set :: "(string \<times> json) list \<Rightarrow> string \<Rightarrow> json \<Rightarrow> (string \<times> json) list" where
  "dict_set [] k v = [(k, v)]"
| "dict_set ((k', v') # kvs) k v =
     (if k' = k then (k, v) # kvs else (k', v') # dict_set kvs k v)"

definition unescape :: "char \<Rightarrow> char option" where
  "unescape e =
     (if e = dquote then Some dquote
      else if e = backslash then Some backslash
      else if e = CHR ''/'' then Some (CHR ''/'')
      else if e = CHR ''b'' then Some (CHR 0x08)
      else if e = CHR ''f'' then Some (CHR 0x0C)
      else if e = CHR ''n'' then Some (CHR 0x0A)
      else if e = CHR ''r'' then Some (CHR 0x0D)
      else if e = CHR ''t'' then Some (CHR 0x09)
      else None)"

text \<open>The four hexadecimal digits of a \<^verbatim>\<open>\u\<close> escape.\<close>

definition scan_hex4 :: "string \<Rightarrow> (nat \<times> string) option" where
  "scan_hex4 s =
     (case s of
        a # b # c # d # rest \<Rightarrow>
          (case (hex_value a, hex_value b, hex_value c, hex_value d) of
             (Some x, Some y, Some z, Some u) \<Rightarrow> Some (x * 4096 + y * 256 + z * 16 + u, rest)
           | _ \<Rightarrow> None)
      | _ \<Rightarrow> None)"

text \<open>
  A \<^verbatim>\<open>\u\<close> escape that has been read as \<open>u\<close>: a high surrogate followed by the
  escape of a low surrogate is one character; any other value stands for itself.
\<close>

definition scan_unicode :: "nat \<Rightarrow> string \<Rightarrow> pyerror + (nat \<times> string)" where
  "scan_unicode u rest =
     (if 55296 \<le> u \<and> u \<le> 56319 \<and> startswith rest [backslash, CHR ''u''] then
        (case scan_hex4 (drop 2 rest) of
           None \<Rightarrow> Inl JSONDecodeError
         | Some (u2, rest2) \<Rightarrow>
             if 56320 \<le> u2 \<and> u2 \<le> 57343
             then Inr (65536 + (u - 55296) * 1024 + (u2 - 56320), rest2)
             else Inr (u, rest))
      else Inr (u, rest))"

text \<open>
  The characters of a string literal, after its opening quote, up to the closing one.
  The first argument bounds the number of steps by the length of the text.
\<close>

fun scan_string :: "nat \<Rightarrow> string \<Rightarrow> string \<Rightarrow> pyerror + (string \<times> string)" where
  "scan_string 0 acc s = Inl JSONDecodeError"
| "scan_string (Suc n) acc [] = Inl JSONDecodeError"
| "scan_string (Suc n) acc (c # cs) =
     (if c = dquote then Inr (acc, cs)
      else if c = backslash then
        (case cs of
           [] \<Rightarrow> Inl JSONDecodeError
         | e # rest \<Rightarrow>
             if e = CHR ''u'' then
               (case scan_hex4 rest of
                  None \<Rightarrow> Inl JSONDecodeError
                | Some (u, rest1) \<Rightarrow>
                    (case scan_unicode u rest1 of
                       Inl err \<Rightarrow> Inl err
                     | Inr (cp, rest2) \<Rightarrow> scan_string n (acc @ utf8_encode cp) rest2))
             else
               (case unescape e of
                  None \<Rightarrow> Inl JSONDecodeError
                | Some ch \<Rightarrow> scan_string n (acc @ [ch]) rest))
      else if of_char c < (32::nat) then Inl JSONDecodeError
      else scan_string n (acc @ [c]) cs)"

text \<open>
  A number: \<^verbatim>\<open>-?(0|[1-9][0-9]*)\<close>, an integer unless a fraction (\<^verbatim>\<open>.\<close> and a digit) or
  an exponent (\<^verbatim>\<open>e\<close> or \<^verbatim>\<open>E\<close>, an optional sign and a digit) follows.
\<close>

definition float_follows :: "string \<Rightarrow> bool" where
  "float_follows rest =
     (case rest of
        c # d # more \<Rightarrow>
          (c = CHR ''.'' \<and> is_digit d)
          \<or> ((c = CHR ''e'' \<or> c = CHR ''E'')
              \<and> (is_digit d
                  \<or> ((d = CHR ''+'' \<or> d = CHR ''-'') \<and> (case more of [] \<Rightarrow> False | x # _ \<Rightarrow> is_digit x))))
      | _ \<Rightarrow> False)"

definition finish_number :: "bool \<Rightarrow> int \<Rightarrow> string \<Rightarrow> pyerror + (json \<times> string)" where
  "finish_number neg n rest =
     (if float_follows rest then Inl Unsupported
      else Inr (JNum (if neg then - n else n), rest))"

definition scan_digits :: "bool \<Rightarrow> string \<Rightarrow> pyerror + (json \<times> string)" where
  "scan_digits neg r =
     (case r of
        [] \<Rightarrow> Inl JSONDecodeError
      | c # cs \<Rightarrow>
          if c = CHR ''0'' then finish_number neg 0 cs
          else if is_digit c then
            finish_number neg (decimal (takeWhile is_digit r)) (dropWhile is_digit r)
          else Inl JSONDecodeError)"

definition scan_number :: "string \<Rightarrow> pyerror + (json \<times> string)" where
  "scan_number s =
     (case s of
        [] \<Rightarrow> Inl JSONDecodeError
      | c # cs \<Rightarrow> if c = CHR ''-'' then scan_digits True cs else scan_digits False s)"

text \<open>
  The recursive descent of \<^verbatim>\<open>json.scanner\<close>, with fuel for the nesting:
  \<open>loads_no_float\<close> gives two units per character.
\<close>

fun parse_value :: "nat \<Rightarrow> string \<Rightarrow> pyerror + (json \<times> string)"
  and parse_items :: "nat \<Rightarrow> json list \<Rightarrow> string \<Rightarrow> pyerror + (json \<times> string)"
  and parse_members :: "nat \<Rightarrow> (string \<times> json) list \<Rightarrow> string \<Rightarrow> pyerror + (json \<times> string)"
where
  "parse_value 0 s = Inl Unsupported"
| "parse_value (Suc n) s =
     (case s of
        [] \<Rightarrow> Inl JSONDecodeError
      | c # cs \<Rightarrow>
          if c = dquote then
            (case scan_string (length cs) [] cs of
               Inl e \<Rightarrow> Inl e
             | Inr (str, rest) \<Rightarrow> Inr (JStr str, rest))
          else if c = CHR ''{'' then
            (case skip_ws cs of
               [] \<Rightarrow> Inl JSONDecodeError
             | d # ds \<Rightarrow> if d = CHR ''}'' then Inr (JObj [], ds) else parse_members n [] (d # ds))
          else if c = CHR ''['' then
            (case skip_ws cs of
               [] \<Rightarrow> Inl JSONDecodeError
             | d # ds \<Rightarrow> if d = CHR '']'' then Inr (JArr [], ds) else parse_items n [] (d # ds))
          else if startswith s ''null'' then Inr (JNull, drop 4 s)
          else if startswith s ''true'' then Inr (JBool True, drop 4 s)
          else if startswith s ''false'' then Inr (JBool False, drop 5 s)
          else if c = CHR ''-'' \<or> is_digit c then
            (if startswith s ''-Infinity'' then Inr (JFloat ''-Infinity'', drop 9 s)
             else scan_number s)
          else if startswith s ''NaN'' then Inr (JFloat ''NaN'', drop 3 s)
          else if startswith s ''Infinity'' then Inr (JFloat ''Infinity'', drop 8 s)
          else Inl JSONDecodeError)"
| "parse_items 0 acc s = Inl Unsupported"
| "parse_items (Suc n) acc s =
     (case parse_value n s of
        Inl e \<Rightarrow> Inl e
      | Inr (v, rest) \<Rightarrow>
          (case skip_ws rest of
             [] \<Rightarrow> Inl JSONDecodeError
           | d # ds \<Rightarrow>
               if d = CHR '']'' then Inr (JArr (acc @ [v]), ds)
               else if d = CHR '','' then parse_items n (acc @ [v]) (skip_ws ds)
               else Inl JSONDecodeError))"
| "parse_members 0 acc s = Inl Unsupported"
| "parse_members (Suc n) acc s =
     (case s of
        [] \<Rightarrow> Inl JSONDecodeError
      | c # cs \<Rightarrow>
          if c \<noteq> dquote then Inl JSONDecodeError
          else
            (case scan_string (length cs) [] cs of
               Inl e \<Rightarrow> Inl e
             | Inr (k, rest) \<Rightarrow>
                 (case skip_ws rest of
                    [] \<Rightarrow> Inl JSONDecodeError
                  | d # ds \<Rightarrow>
                      if d \<noteq> CHR '':'' then Inl JSONDecodeError
                      else
                        (case parse_value n (skip_ws ds) of
                           Inl e \<Rightarrow> Inl e
                         | Inr (v, rest2) \<Rightarrow>
                             (case skip_ws rest2 of
                                [] \<Rightarrow> Inl JSONDecodeError
                              | x # xs \<Rightarrow>
                                  if x = CHR ''}'' then Inr (JObj (dict_set acc k v), xs)
                                  else if x = CHR '','' then
                                    parse_members n (dict_set acc k v) (skip_ws xs)
                                  else Inl JSONDecodeError)))))"

definition loads_no_float :: "string \<Rightarrow> pyerror + json" where
  "loads_no_float s =
     (case parse_value (2 * length s + 2) (skip_ws s) of
        Inl e \<Rightarrow> Inl e
      | Inr (v, rest) \<Rightarrow> if skip_ws rest = [] then Inr v else Inl JSONDecodeError)"

section \<open>Paths and the file system\<close>

text \<open>
  A \<^verbatim>\<open>pathlib.Path\<close> on POSIX: an anchor (empty, \<^verbatim>\<open>/\<close> or \<^verbatim>\<open>//\<close>) and the parts
  between the separators, empty parts and \<^verbatim>\<open>.\<close> dropped, \<^verbatim>\<open>..\<close> kept. Joining
  with an absolute path gives that absolute path.
\<close>

datatype path = Path (anchor: string) (parts: "string list")

definition parse_path :: "string \<Rightarrow> path" where
  "parse_path s =
     Path (if startswith s ''//'' \<and> \<not> startswith s ''///'' then ''//''
           else if startswith s ''/'' then ''/''
           else [])
          (filter (\<lambda>p. p \<noteq> [] \<and> p \<noteq> ''.'') (split_on (CHR ''/'') s))"

definition joinpath :: "path \<Rightarrow> string \<Rightarrow> path" where
  "joinpath p s =
     (let q = parse_path s
      in if anchor q \<noteq> [] then q else Path (anchor p) (parts p @ parts q))"

text \<open>\<^verbatim>\<open>path / obj\<close>: only a string may be joined to a path.\<close>

fun path_div :: "path \<Rightarrow> json \<Rightarrow> pyerror + path" where
  "path_div p (JStr s) = Inr (joinpath p s)"
| "path_div p _ = Inl TypeError"

definition str_path :: "path \<Rightarrow> string" where
  "str_path p =
     (if anchor p = [] \<and> parts p = [] then ''.''
      else anchor p @ join_sep ''/'' (parts p))"

definition relative_to :: "path \<Rightarrow> path \<Rightarrow> pyerror + path" where
  "relative_to p other =
     (if anchor p = anchor other \<and> take (length (parts other)) (parts p) = parts other
      then Inr (Path [] (drop (length (parts other)) (parts p)))
      else Inl ValueError)"

text \<open>
  The file system maps locations to file contents and knows which locations are
  directories. A location is the list of names from the root. The system resolves a
  path name by name, from the working directory or from the root: every name but the
  last must lead to a directory that exists, \<^verbatim>\<open>..\<close> leads to the parent (there are no
  symbolic links in the model), and the last name need not exist.
\<close>

type_synonym loc = "string list"

record fsys =
  files :: "loc \<rightharpoonup> string"
  dirs :: "loc set"

fun walk :: "fsys \<Rightarrow> loc \<Rightarrow> string list \<Rightarrow> pyerror + loc" where
  "walk f l [] = Inr l"
| "walk f l (c # cs) =
     (if c = ''..'' then walk f (butlast l) cs
      else if l @ [c] \<in> dirs f then walk f (l @ [c]) cs
      else if files f (l @ [c]) \<noteq> None then Inl NotADirectoryError
      else Inl FileNotFoundError)"

definition locate :: "fsys \<Rightarrow> loc \<Rightarrow> path \<Rightarrow> pyerror + loc" where
  "locate f wd p =
     (let start = (if anchor p = [] then wd else [])
      in if parts p = [] then Inr start
         else
           (case walk f start (butlast (parts p)) of
              Inl e \<Rightarrow> Inl e
            | Inr d \<Rightarrow>
                Inr (if last (parts p) = ''..'' then butlast d else d @ [last (parts p)])))"

definition fs_read :: "fsys \<Rightarrow> loc \<Rightarrow> path \<Rightarrow> pyerror + string" where
  "fs_read f wd p =
     (case locate f wd p of
        Inl e \<Rightarrow> Inl e
      | Inr l \<Rightarrow>
          if l \<in> dirs f then Inl IsADirectoryError
          else (case files f l of None \<Rightarrow> Inl FileNotFoundError | Some c \<Rightarrow> Inr c))"

definition fs_write :: "fsys \<Rightarrow> loc \<Rightarrow> path \<Rightarrow> string \<Rightarrow> pyerror + fsys" where
  "fs_write f wd p c =
     (case locate f wd p of
        Inl e \<Rightarrow> Inl e
      | Inr l \<Rightarrow>
          if l \<in> dirs f then Inl IsADirectoryError
          else Inr (f\<lparr>files := (files f)(l \<mapsto> c)\<rparr>))"

text \<open>\<^verbatim>\<open>Path.mkdir(exist_ok=True)\<close>: an existing directory is accepted, parents are not created.\<close>

definition fs_mkdir :: "fsys \<Rightarrow> loc \<Rightarrow> path \<Rightarrow> pyerror + fsys" where
  "fs_mkdir f wd p =
     (case locate f wd p of
        Inl e \<Rightarrow> Inl e
      | Inr l \<Rightarrow>
          if l \<in> dirs f then Inr f
          else if files f l \<noteq> None then Inl FileExistsError
          else Inr (f\<lparr>dirs := insert l (dirs f)\<rparr>))"

section \<open>The process: its state, its surroundings, and actions that may raise\<close>

text \<open>
  What the process does to the outside is kept as a list of events, in order: a line
  printed, a call of \<^verbatim>\<open>subprocess.run\<close> with its arguments, an HTTP request, and the
  report the \<^verbatim>\<open>handle_errors\<close> wrapper makes of a failed package.
\<close>

datatype event =
    Print string
  | Exec "string list"
  | HttpGet string
  | Report json pyerror

record world =
  fs :: fsys
  cwd :: loc
  out :: "event list"
  pool :: "json list"

text \<open>
  What the script uses and does not define: the environment variables; what a command
  does to the file system and how it exits; what the index URL answers; the \<^verbatim>\<open>json\<close>
  module (\<^verbatim>\<open>loads\<close>, \<^verbatim>\<open>dumps\<close>); \<^verbatim>\<open>str()\<close> of a value that is not a string, as an
  f-string formats it; and the \<^verbatim>\<open>Model\<close> class of \<^verbatim>\<open>model.py\<close> (not among the
  sources): what \<^verbatim>\<open>Model(config, path, github).as_json\<close> evaluates to, or the exception
  it raises.
\<close>

record env =
  environ :: "string \<rightharpoonup> string"
  exec :: "string list \<Rightarrow> loc \<Rightarrow> fsys \<Rightarrow> (pyerror + int) \<times> fsys"
  http_get :: "string \<Rightarrow> pyerror + string"
  json_loads :: "string \<Rightarrow> pyerror + json"
  json_dumps :: "json \<Rightarrow> string"
  str_of :: "json \<Rightarrow> string"
  Model_as_json :: "json \<Rightarrow> path \<Rightarrow> json \<Rightarrow> pyerror + json"

type_synonym 'a res = "world \<Rightarrow> (pyerror + 'a) \<times> world"

definition ret :: "'a \<Rightarrow> 'a res" where
  "ret x w = (Inr x, w)"

definition of_result :: "pyerror + 'a \<Rightarrow> 'a res" where
  "of_result r w = (r, w)"

definition then_do :: "'a res \<Rightarrow> ('a \<Rightarrow> 'b res) \<Rightarrow> 'b res" where
  "then_do m f w = (case m w of (Inl e, w') \<Rightarrow> (Inl e, w') | (Inr x, w') \<Rightarrow> f x w')"

text \<open>\<^verbatim>\<open>environ.get(name)\<close> as a condition: the variable is set, and not to the empty string.\<close>

definition env_flag :: "env \<Rightarrow> string \<Rightarrow> bool" where
  "env_flag e name = (case environ e name of None \<Rightarrow> False | Some v \<Rightarrow> v \<noteq> [])"

text \<open>\<^verbatim>\<open>f"{name}"\<close>: a string is taken as it is.\<close>

fun py_format :: "env \<Rightarrow> json \<Rightarrow> string" where
  "py_format e (JStr s) = s"
| "py_format e v = str_of e v"

definition py_print :: "string \<Rightarrow> unit res" where
  "py_print s w = (Inr (), w\<lparr>out := out w @ [Print s]\<rparr>)"

definition read_text :: "path \<Rightarrow> string res" where
  "read_text p w = (fs_read (fs w) (cwd w) p, w)"

definition write_text :: "path \<Rightarrow> string \<Rightarrow> unit res" where
  "write_text p c w =
     (case fs_write (fs w) (cwd w) p c of
        Inl e \<Rightarrow> (Inl e, w)
      | Inr f \<Rightarrow> (Inr (), w\<lparr>fs := f\<rparr>))"

definition mkdir_exist_ok :: "path \<Rightarrow> unit res" where
  "mkdir_exist_ok p w =
     (case fs_mkdir (fs w) (cwd w) p of
        Inl e \<Rightarrow> (Inl e, w)
      | Inr f \<Rightarrow> (Inr (), w\<lparr>fs := f\<rparr>))"

definition chdir :: "path \<Rightarrow> unit res" where
  "chdir p w =
     (case locate (fs w) (cwd w) p of
        Inl e \<Rightarrow> (Inl e, w)
      | Inr l \<Rightarrow>
          if l \<in> dirs (fs w) then (Inr (), w\<lparr>cwd := l\<rparr>)
          else if files (fs w) l \<noteq> None then (Inl NotADirectoryError, w)
          else (Inl FileNotFoundError, w))"

text \<open>\<^verbatim>\<open>subprocess.run(args, check=True)\<close>: a non-zero exit status raises.\<close>

definition run_checked :: "env \<Rightarrow> string list \<Rightarrow> int res" where
  "run_checked e args w =
     (let (r, f) = exec e args (cwd w) (fs w);
          w' = w\<lparr>fs := f, out := out w @ [Exec args]\<rparr>
      in case r of
           Inl err \<Rightarrow> (Inl err, w')
         | Inr rc \<Rightarrow> if rc \<noteq> 0 then (Inl (CalledProcessError rc), w') else (Inr rc, w'))"

section \<open>The script\<close>

text \<open>
  The globals set when the script starts: \<^verbatim>\<open>curr = Path()\<close>,
  \<^verbatim>\<open>repos_dir = curr / "../repos"\<close> and \<^verbatim>\<open>json_dir = curr / "../json"\<close>.
\<close>

definition curr :: path where
  "curr = Path [] []"

definition repos_dir :: path where
  "repos_dir = joinpath curr ''../repos''"

definition json_dir :: path where
  "json_dir = joinpath curr ''../json''"

definition MODEL_JSON_URL :: string where
  "MODEL_JSON_URL = ''https://raw.githubusercontent.com/modelhub-ai/modelhub/master/models.json''"

text \<open>
  \<^verbatim>\<open>get_model_index\<close>: the response body is written to \<^verbatim>\<open>json_dir / "models.json"\<close>
  before it is parsed.
\<close>

definition requests_get :: "env \<Rightarrow> string \<Rightarrow> string res" where
  "requests_get e url w = (http_get e url, w\<lparr>out := out w @ [HttpGet url]\<rparr>)"

definition get_model_index :: "env \<Rightarrow> json res" where
  "get_model_index e =
     then_do (requests_get e MODEL_JSON_URL) (\<lambda>content.
     then_do (write_text (joinpath json_dir ''models.json'') content) (\<lambda>_.
     of_result (json_loads e content)))"

text \<open>\<^verbatim>\<open>subprocess_run\<close>: show the command, then run it.\<close>

definition subprocess_run :: "env \<Rightarrow> json list \<Rightarrow> int res" where
  "subprocess_run e arg_list =
     then_do (of_result (as_strs arg_list)) (\<lambda>args.
     then_do (py_print (''$ '' @ join_sep '' '' args)) (\<lambda>_.
     run_checked e args))"

text \<open>\<^verbatim>\<open>download_file\<close>: \<^verbatim>\<open>wget url -O dest\<close>, then the exit status is printed.\<close>

definition download_file :: "env \<Rightarrow> string \<Rightarrow> path \<Rightarrow> unit res" where
  "download_file e url dest =
     then_do (subprocess_run e [JStr ''wget'', JStr url, JStr ''-O'', JStr (str_path dest)]) (\<lambda>rc.
     py_print (show_int rc))"

text \<open>
  The body of the loop over \<^verbatim>\<open>external_contrib_files\<close> in \<^verbatim>\<open>clone_repo\<close>: one entry.
  \<^verbatim>\<open>continue\<close> is the early \<open>ret ()\<close>.
\<close>

definition resolve_entry :: "env \<Rightarrow> path \<Rightarrow> json \<Rightarrow> unit res" where
  "resolve_entry e repo_root external_files =
     then_do (of_result (py_getitem external_files ''src_url'')) (\<lambda>src_v.
     then_do (of_result (str_method src_v)) (\<lambda>src.
     if \<not> startswith src ''http'' then ret ()
     else
       then_do (of_result (py_getitem external_files ''dest_file_path'')) (\<lambda>dest_v.
       then_do (of_result (str_method dest_v)) (\<lambda>dest.
       let realpath = joinpath repo_root (if startswith dest ''/'' then drop 1 dest else dest)
       in if env_flag e ''MHTORRENT_SKIP_DOWNLOAD'' then py_print ''skipping download''
          else
            then_do (py_print (''downloading '' @ src @ '' to '' @ str_path realpath)) (\<lambda>_.
            download_file e src realpath)))))"

fun resolve_all :: "env \<Rightarrow> path \<Rightarrow> json list \<Rightarrow> unit res" where
  "resolve_all e repo_root [] = ret ()"
| "resolve_all e repo_root (x # xs) =
     then_do (resolve_entry e repo_root x) (\<lambda>_. resolve_all e repo_root xs)"

text \<open>The asset step of \<^verbatim>\<open>clone_repo\<close>: \<^verbatim>\<open>if data.get(...): for ... in data[...]\<close>.\<close>

definition resolve_assets :: "env \<Rightarrow> path \<Rightarrow> json \<Rightarrow> unit res" where
  "resolve_assets e repo_root data =
     then_do (of_result (dict_get data ''external_contrib_files'')) (\<lambda>listed.
     if truthy listed then
       then_do (of_result (py_getitem data ''external_contrib_files'')) (\<lambda>v.
       then_do (of_result (py_iter v)) (\<lambda>entries.
       resolve_all e repo_root entries))
     else ret ())"

text \<open>The metadata step of \<^verbatim>\<open>clone_repo\<close>, from reading \<^verbatim>\<open>config.json\<close> on.\<close>

definition write_metadata :: "env \<Rightarrow> json \<Rightarrow> json \<Rightarrow> unit res" where
  "write_metadata e github_repo name =
     then_do (of_result (path_div repos_dir name)) (\<lambda>repo_root.
     then_do (read_text (joinpath repo_root ''contrib_src/model/config.json'')) (\<lambda>text.
     then_do (of_result (json_loads e text)) (\<lambda>config.
     then_do (of_result (path_div json_dir name)) (\<lambda>model_metadata_dir.
     then_do (mkdir_exist_ok model_metadata_dir) (\<lambda>_.
     let general_model_metadata_path = joinpath model_metadata_dir ''model.json'';
         mh_metadata_path = joinpath model_metadata_dir ''modelhub.json''
     in
       then_do (of_result (relative_to mh_metadata_path model_metadata_dir)) (\<lambda>rel.
       then_do (of_result (Model_as_json e config rel github_repo)) (\<lambda>as_json.
       then_do (write_text general_model_metadata_path (json_dumps e as_json)) (\<lambda>_.
       write_text mh_metadata_path (json_dumps e config)))))))))"

text \<open>\<^verbatim>\<open>clone_repo\<close> without its decorator.\<close>

definition clone_repo_body :: "env \<Rightarrow> json \<Rightarrow> unit res" where
  "clone_repo_body e model_meta =
     then_do (of_result (py_getitem model_meta ''github'')) (\<lambda>github_repo.
     then_do (of_result (py_getitem model_meta ''name'')) (\<lambda>name.
     then_do (if \<not> env_flag e ''MHTORRENT_SKIP_CLONE''
              then then_do (subprocess_run e
                     [JStr ''git'', JStr ''clone'', JStr ''--depth=1'', github_repo,
                      JStr (py_format e name)]) (\<lambda>_. ret ())
              else ret ()) (\<lambda>_.
     then_do (of_result (path_div repos_dir name)) (\<lambda>repo_root.
     then_do (read_text (joinpath repo_root ''init/init.json'')) (\<lambda>text.
     then_do (of_result (json_loads e text)) (\<lambda>data.
     then_do (resolve_assets e repo_root data) (\<lambda>_.
     write_metadata e github_repo name)))))))"

text \<open>
  Modelled from the spec: the decorator \<^verbatim>\<open>handle_errors\<close> of \<^verbatim>\<open>util.py\<close>, which is not
  among the sources. By the spec, any exception of the wrapped call is caught at this
  boundary, logged so that the offending package can be identified, and converted into
  a failure outcome for this package; nothing is propagated to the caller.
\<close>

datatype outcome = Succeeded | Failed

definition handle_errors :: "(json \<Rightarrow> unit res) \<Rightarrow> json \<Rightarrow> world \<Rightarrow> outcome \<times> world" where
  "handle_errors f x w =
     (case f x w of
        (Inl err, w') \<Rightarrow> (Failed, w'\<lparr>out := out w' @ [Report x err]\<rparr>)
      | (Inr _, w') \<Rightarrow> (Succeeded, w'))"

definition clone_repo :: "env \<Rightarrow> json \<Rightarrow> world \<Rightarrow> outcome \<times> world" where
  "clone_repo e = handle_errors (clone_repo_body e)"

text \<open>\<^verbatim>\<open>safe_dir\<close>.\<close>

definition safe_dir :: "string \<Rightarrow> path res" where
  "safe_dir whr =
     (let res = joinpath curr whr
      in then_do (mkdir_exist_ok res) (\<lambda>_. ret res))"

text \<open>
  \<^verbatim>\<open>create_model_repos\<close>. \<^verbatim>\<open>exc.submit(clone_repo, model_meta)\<close> hands the task to the
  thread pool and returns at once: the task joins \<open>pool\<close>, the list of submitted tasks.
  The function returns after the last \<^verbatim>\<open>submit\<close> and \<^verbatim>\<open>chdir(curr)\<close>; it keeps no
  future and reads no result.
\<close>

definition submit :: "json \<Rightarrow> unit res" where
  "submit model_meta w = (Inr (), w\<lparr>pool := pool w @ [model_meta]\<rparr>)"

fun submit_all :: "json list \<Rightarrow> unit res" where
  "submit_all [] = ret ()"
| "submit_all (m # ms) = then_do (submit m) (\<lambda>_. submit_all ms)"

definition fetch_index :: "env \<Rightarrow> json res" where
  "fetch_index e =
     (let models_file = joinpath json_dir ''models.json''
      in if env_flag e ''MHTORRENT_USE_LOCAL_MODEL_INDEX''
         then then_do (read_text models_file) (\<lambda>text. of_result (json_loads e text))
         else get_model_index e)"

definition create_model_repos :: "env \<Rightarrow> unit res" where
  "create_model_repos e =
     then_do (fetch_index e) (\<lambda>models.
     then_do (chdir repos_dir) (\<lambda>_.
     then_do (of_result (py_iter models)) (\<lambda>model_metas.
     then_do (submit_all model_metas) (\<lambda>_.
     chdir curr))))"

definition main :: "env \<Rightarrow> unit res" where
  "main e =
     then_do (safe_dir ''../repos'') (\<lambda>_.
     then_do (safe_dir ''../json'') (\<lambda>_.
     create_model_repos e))"

text \<open>
  The pool's workers run the submitted tasks. The model runs them one after the other,
  in the order of submission: one of the schedules of the pool.
\<close>

fun run_tasks :: "env \<Rightarrow> json list \<Rightarrow> world \<Rightarrow> outcome list \<times> world" where
  "run_tasks e [] w = ([], w)"
| "run_tasks e (m # ms) w =
     (let (r, w1) = clone_repo e m w;
          (rs, w2) = run_tasks e ms w1
      in (r # rs, w2))"

section \<open>What is observed of a run\<close>

text \<open>The paths \<^verbatim>\<open>clone_repo\<close> reads the configuration from and writes the metadata to.\<close>

definition config_path :: "string \<Rightarrow> path" where
  "config_path name = joinpath (joinpath repos_dir name) ''contrib_src/model/config.json''"

definition metadata_path :: "string \<Rightarrow> string \<Rightarrow> path" where
  "metadata_path name file = joinpath (joinpath json_dir name) file"

text \<open>The content of the regular file a path leads to, if it leads to one.\<close>

definition file_at :: "fsys \<Rightarrow> loc \<Rightarrow> path \<Rightarrow> string option" where
  "file_at f wd p =
     (case locate f wd p of
        Inl _ \<Rightarrow> None
      | Inr l \<Rightarrow> if l \<in> dirs f then None else files f l)"

text \<open>The location reached from a working directory by \<^verbatim>\<open>..\<close> and then the given names.\<close>

definition beside :: "loc \<Rightarrow> string list \<Rightarrow> loc" where
  "beside wd names = butlast wd @ names"

definition is_exec :: "event \<Rightarrow> bool" where
  "is_exec ev = (case ev of Exec _ \<Rightarrow> True | _ \<Rightarrow> False)"

definition is_report :: "event \<Rightarrow> bool" where
  "is_report ev = (case ev of Report _ _ \<Rightarrow> True | _ \<Rightarrow> False)"

definition is_print :: "event \<Rightarrow> bool" where
  "is_print ev = (case ev of Print _ \<Rightarrow> True | _ \<Rightarrow> False)"

text \<open>
  An action that only appends events of one kind, and leaves the working directory and
  the pool alone.
\<close>

definition emits_only :: "(event \<Rightarrow> bool) \<Rightarrow> 'a res \<Rightarrow> bool" where
  "emits_only P m =
     (\<forall>w. \<exists>evs. out (snd (m w)) = out w @ evs \<and> list_all P evs
            \<and> cwd (snd (m w)) = cwd w \<and> pool (snd (m w)) = pool w)"



text \<open>
  The two metadata files of a package as \<^verbatim>\<open>clone_repo\<close> leaves them: \<^verbatim>\<open>modelhub.json\<close>
  holds \<^verbatim>\<open>dumps\<close> of the parsed \<^verbatim>\<open>config.json\<close>, and \<^verbatim>\<open>model.json\<close> holds \<^verbatim>\<open>dumps\<close> of
  the \<^verbatim>\<open>Model\<close> built from the configuration, the relative path \<^verbatim>\<open>modelhub.json\<close> and
  the repository URL.
\<close>

definition outputs_written :: "env \<Rightarrow> json \<Rightarrow> world \<Rightarrow> bool" where
  "outputs_written e model_meta w =
     (case (py_getitem model_meta ''github'', py_getitem model_meta ''name'') of
        (Inr g, Inr (JStr n)) \<Rightarrow>
          (case file_at (fs w) (cwd w) (config_path n) of
             Some doc \<Rightarrow>
               (case json_loads e doc of
                  Inr config \<Rightarrow>
                    file_at (fs w) (cwd w) (metadata_path n ''modelhub.json'')
                      = Some (json_dumps e config)
                    \<and> (case Model_as_json e config (Path [] [''modelhub.json'']) g of
                         Inr j \<Rightarrow>
                           file_at (fs w) (cwd w) (metadata_path n ''model.json'')
                             = Some (json_dumps e j)
                       | Inl _ \<Rightarrow> False)
                | Inl _ \<Rightarrow> False)
           | None \<Rightarrow> False)
      | _ \<Rightarrow> False)"

text \<open>
  An entry the loop fetches, where the asset goes, and the events of a fetch and of the
  clone.
\<close>

definition valid_entry :: "json \<Rightarrow> string \<Rightarrow> string \<Rightarrow> bool" where
  "valid_entry x src dest =
     (py_getitem x ''src_url'' = Inr (JStr src) \<and> startswith src ''http''
      \<and> py_getitem x ''dest_file_path'' = Inr (JStr dest))"

definition asset_path :: "path \<Rightarrow> string \<Rightarrow> path" where
  "asset_path repo_root dest =
     joinpath repo_root (if startswith dest ''/'' then drop 1 dest else dest)"

definition fetch_events :: "string \<Rightarrow> path \<Rightarrow> event list" where
  "fetch_events src target =
     [Print (''downloading '' @ src @ '' to '' @ str_path target),
      Print (''$ wget '' @ src @ '' -O '' @ str_path target),
      Exec [''wget'', src, ''-O'', str_path target]]"

definition clone_events :: "string \<Rightarrow> string \<Rightarrow> event list" where
  "clone_events github_repo name =
     [Print (''$ git clone --depth=1 '' @ github_repo @ '' '' @ name),
      Exec [''git'', ''clone'', ''--depth=1'', github_repo, name]]"

section \<open>Concrete runs\<close>

text \<open>
  A working directory \<^verbatim>\<open>/work/scripts\<close> beside \<^verbatim>\<open>/work/repos\<close> and \<^verbatim>\<open>/work/json\<close>, with
  the repository of package \<^verbatim>\<open>m1\<close> in place: its \<^verbatim>\<open>init.json\<close> lists no external file
  and its \<^verbatim>\<open>config.json\<close> is \<^verbatim>\<open>{"foo":"bar"}\<close>. Package \<^verbatim>\<open>m2\<close> has a truncated
  \<^verbatim>\<open>config.json\<close>.
\<close>

definition demo_dirs :: "loc set" where
  "demo_dirs =
     {[], [''work''], [''work'', ''scripts''], [''work'', ''repos''], [''work'', ''json''],
      [''work'', ''repos'', ''m1''], [''work'', ''repos'', ''m1'', ''init''],
      [''work'', ''repos'', ''m1'', ''contrib_src''],
      [''work'', ''repos'', ''m1'', ''contrib_src'', ''model''],
      [''work'', ''repos'', ''m2''], [''work'', ''repos'', ''m2'', ''init''],
      [''work'', ''repos'', ''m2'', ''contrib_src''],
      [''work'', ''repos'', ''m2'', ''contrib_src'', ''model'']}"

definition demo_files :: "loc \<rightharpoonup> string" where
  \<open>demo_files =
     [[''work'', ''repos'', ''m1'', ''init'', ''init.json''] \<mapsto> ''{}'',
      [''work'', ''repos'', ''m1'', ''contrib_src'', ''model'', ''config.json'']
         \<mapsto> ''{"foo":"bar"}'',
      [''work'', ''repos'', ''m2'', ''init'', ''init.json''] \<mapsto> ''{}'',
      [''work'', ''repos'', ''m2'', ''contrib_src'', ''model'', ''config.json'']
         \<mapsto> ''{"foo":'']\<close>

definition demo_world :: world where
  "demo_world =
     \<lparr>fs = \<lparr>files = demo_files, dirs = demo_dirs\<rparr>,
      cwd = [''work'', ''scripts''], out = [], pool = []\<rparr>"

definition m1_meta :: json where
  "m1_meta = JObj [(''name'', JStr ''m1''), (''github'', JStr ''https://x/m1.git'')]"

definition m2_meta :: json where
  "m2_meta = JObj [(''name'', JStr ''m2''), (''github'', JStr ''https://x/m2.git'')]"

definition index_doc :: string where
  \<open>index_doc = ''[{"name": "m1", "github": "https://x/m1.git"}]''\<close>

text \<open>
  Surroundings in which every command exits with status 0 and changes no file, the
  index URL answers \<open>index_doc\<close>, the \<^verbatim>\<open>json\<close> module and \<^verbatim>\<open>str()\<close> are the ones defined above, and a
  \<^verbatim>\<open>Model\<close> renders as its two identifying arguments. \<open>failing_env\<close> differs in that
  every command exits with status 1; \<open>skipping_env\<close> has the three switches set.
\<close>

definition demo_env :: env where
  "demo_env =
     \<lparr>environ = Map.empty,
      exec = (\<lambda>args wd f. (Inr 0, f)),
      http_get = (\<lambda>url. Inr index_doc),
      json_loads = loads_no_float,
      json_dumps = dumps,
      str_of = py_repr,
      Model_as_json = (\<lambda>config p g. Inr (JObj [(''modelhub'', JStr (str_path p)), (''github'', g)]))\<rparr>"

definition failing_env :: env where
  "failing_env = demo_env\<lparr>exec := (\<lambda>args wd f. (Inr 1, f))\<rparr>"

definition skipping_env :: env where
  "skipping_env =
     demo_env\<lparr>environ :=
       [''MHTORRENT_USE_LOCAL_MODEL_INDEX'' \<mapsto> ''1'',
        ''MHTORRENT_SKIP_CLONE'' \<mapsto> ''1'',
        ''MHTORRENT_SKIP_DOWNLOAD'' \<mapsto> ''1'']\<rparr>"

definition m1_root :: path where
  "m1_root = joinpath repos_dir ''m1''"

definition comment_entry :: json where
  "comment_entry = JObj [(''src_url'', JStr ''TODO fill in'')]"

definition loose_entry :: json where
  "loose_entry =
     JObj [(''src_url'', JStr ''http link pending''), (''dest_file_path'', JStr ''/contrib_src/x'')]"

definition asset_entry :: json where
  "asset_entry =
     JObj [(''src_url'', JStr ''https://x/a.bin''), (''dest_file_path'', JStr ''/contrib_src/a.bin'')]"

definition asset_entry2 :: json where
  "asset_entry2 =
     JObj [(''src_url'', JStr ''https://x/b.bin''), (''dest_file_path'', JStr ''contrib_src/b.bin'')]"


definition no_url_meta :: json where
  "no_url_meta = JObj [(''name'', JStr ''m1'')]"

definition empty_url_meta :: json where
  "empty_url_meta = JObj [(''name'', JStr ''m1''), (''github'', JStr [])]"


section \<open>Lemmas\<close>

subsection \<open>Sequencing\<close>

lemma then_do_of_result_Inr: "then_do (of_result (Inr x)) f = f x"
  by (rule ext) (simp add: then_do_def of_result_def)

lemma then_do_of_result_Inl: "then_do (of_result (Inl err)) f w = (Inl err, w)"
  by (simp add: then_do_def of_result_def)

lemma then_do_ret: "then_do (ret x) f = f x"
  by (rule ext) (simp add: then_do_def ret_def)

lemma then_do_assoc: "then_do (then_do m f) g = then_do m (\<lambda>x. then_do (f x) g)"
  by (rule ext) (simp add: then_do_def split: prod.splits sum.splits)

lemma fst_then_do_InrD:
  assumes "fst (then_do m f w) = Inr y"
  obtains x w1 where "m w = (Inr x, w1)" and "then_do m f w = f x w1"
  using assms by (auto simp add: then_do_def split: prod.splits sum.splits)

lemma resolve_all_append:
  "resolve_all e root (xs @ ys) = then_do (resolve_all e root xs) (\<lambda>_. resolve_all e root ys)"
  by (induction xs) (simp_all add: then_do_ret then_do_assoc)

lemma resolve_entry_skip:
  assumes "py_getitem entry ''src_url'' = Inr (JStr src)" and "\<not> startswith src ''http''"
  shows "resolve_entry e root entry = ret ()"
  using assms by (simp add: resolve_entry_def then_do_of_result_Inr)

lemma resolve_all_stops:
  assumes "isl (fst (resolve_all e root xs w))"
  shows "resolve_all e root (xs @ ys) w = resolve_all e root xs w"
  using assms
  by (cases "resolve_all e root xs w"; cases "fst (resolve_all e root xs w)")
     (auto simp add: resolve_all_append then_do_def)

subsection \<open>Events an action adds\<close>

lemma emits_onlyD:
  assumes "emits_only P m"
  obtains evs where "out (snd (m w)) = out w @ evs" "list_all P evs"
    "cwd (snd (m w)) = cwd w" "pool (snd (m w)) = pool w"
  using assms unfolding emits_only_def by blast

lemma emits_out:
  assumes "emits_only P m"
  obtains evs where "out (snd (m w)) = out w @ evs" "list_all P evs"
  using emits_onlyD [OF assms, of w] by blast

lemma emits_cwd:
  assumes "emits_only P m" and "m w = (r, w1)"
  shows "cwd w1 = cwd w"
  using emits_onlyD [OF assms(1), of w] assms(2) by (metis snd_conv)

lemma emits_ret: "emits_only P (ret x)"
  by (simp add: emits_only_def ret_def)

lemma emits_of_result: "emits_only P (of_result r)"
  by (simp add: emits_only_def of_result_def)

lemma emits_print: "P (Print s) \<Longrightarrow> emits_only P (py_print s)"
  by (simp add: emits_only_def py_print_def)

lemma emits_read_text: "emits_only P (read_text p)"
  by (simp add: emits_only_def read_text_def)

lemma emits_write_text: "emits_only P (write_text p c)"
  by (simp add: emits_only_def write_text_def split: sum.splits)

lemma emits_mkdir: "emits_only P (mkdir_exist_ok p)"
  by (simp add: emits_only_def mkdir_exist_ok_def split: sum.splits)

lemma emits_run_checked: "P (Exec args) \<Longrightarrow> emits_only P (run_checked e args)"
  by (simp add: emits_only_def run_checked_def Let_def split: prod.splits sum.splits)

lemma emits_then_do:
  assumes m: "emits_only P m" and f: "\<And>x. emits_only P (f x)"
  shows "emits_only P (then_do m f)"
  unfolding emits_only_def
proof
  fix w
  obtain r w1 where mw: "m w = (r, w1)" by (cases "m w")
  from m obtain evs where evs: "out w1 = out w @ evs" "list_all P evs" "cwd w1 = cwd w" "pool w1 = pool w"
    using mw by (auto elim: emits_onlyD [where w = w])
  show "\<exists>evs. out (snd (then_do m f w)) = out w @ evs \<and> list_all P evs
          \<and> cwd (snd (then_do m f w)) = cwd w \<and> pool (snd (then_do m f w)) = pool w"
  proof (cases r)
    case (Inl err)
    with mw evs show ?thesis by (simp add: then_do_def)
  next
    case (Inr x)
    from f [of x] obtain evs' where evs': "out (snd (f x w1)) = out w1 @ evs'" "list_all P evs'"
        "cwd (snd (f x w1)) = cwd w1" "pool (snd (f x w1)) = pool w1"
      by (auto elim: emits_onlyD [where w = w1])
    with Inr mw evs show ?thesis by (simp add: then_do_def)
  qed
qed

lemma emits_if: "emits_only P a \<Longrightarrow> emits_only P b \<Longrightarrow> emits_only P (if c then a else b)"
  by simp

lemmas emits_intros =
  emits_then_do emits_ret emits_of_result emits_print emits_read_text emits_write_text
  emits_mkdir emits_run_checked emits_if

lemma emits_subprocess_run:
  "(\<And>args. P (Exec args)) \<Longrightarrow> (\<And>s. P (Print s)) \<Longrightarrow> emits_only P (subprocess_run e arg_list)"
  unfolding subprocess_run_def by (intro emits_intros) auto

lemma emits_download_file:
  "(\<And>args. P (Exec args)) \<Longrightarrow> (\<And>s. P (Print s)) \<Longrightarrow> emits_only P (download_file e url dest)"
  unfolding download_file_def by (intro emits_intros emits_subprocess_run) auto

lemma emits_resolve_entry:
  "(\<And>args. P (Exec args)) \<Longrightarrow> (\<And>s. P (Print s)) \<Longrightarrow> emits_only P (resolve_entry e root x)"
  unfolding resolve_entry_def Let_def by (intro emits_intros emits_download_file) auto

lemma emits_resolve_entry_skip:
  assumes "env_flag e ''MHTORRENT_SKIP_DOWNLOAD''"
  shows "emits_only is_print (resolve_entry e root x)"
proof -
  have "resolve_entry e root x =
     then_do (of_result (py_getitem x ''src_url'')) (\<lambda>src_v.
     then_do (of_result (str_method src_v)) (\<lambda>src.
     if \<not> startswith src ''http'' then ret ()
     else
       then_do (of_result (py_getitem x ''dest_file_path'')) (\<lambda>dest_v.
       then_do (of_result (str_method dest_v)) (\<lambda>dest. py_print ''skipping download''))))"
    using assms by (simp add: resolve_entry_def Let_def cong: if_cong)
  then show ?thesis
    by (simp only:) (intro emits_intros, simp add: is_print_def)
qed

lemma emits_resolve_all:
  "(\<And>x. emits_only P (resolve_entry e root x)) \<Longrightarrow> emits_only P (resolve_all e root xs)"
  by (induction xs) (auto intro: emits_intros)

lemma emits_resolve_assets:
  "(\<And>x. emits_only P (resolve_entry e root x)) \<Longrightarrow> emits_only P (resolve_assets e root data)"
  unfolding resolve_assets_def by (intro emits_intros emits_resolve_all) auto

lemma emits_write_metadata: "emits_only P (write_metadata e g name)"
  unfolding write_metadata_def Let_def by (intro emits_intros)

lemma emits_clone_repo_body:
  assumes "\<And>args. P (Exec args)" and "\<And>s. P (Print s)"
  shows "emits_only P (clone_repo_body e m)"
  unfolding clone_repo_body_def
  by (intro emits_intros emits_subprocess_run emits_resolve_assets emits_resolve_entry
        emits_write_metadata assms)

lemma emits_any: "emits_only (\<lambda>_. True) (subprocess_run e args)"
  "emits_only (\<lambda>_. True) (resolve_assets e root data)"
  by (intro emits_subprocess_run emits_resolve_assets emits_resolve_entry; simp)+


subsection \<open>Resolving paths\<close>

lemma walk_append:
  "walk f l (xs @ ys) = (case walk f l xs of Inl e \<Rightarrow> Inl e | Inr d \<Rightarrow> walk f d ys)"
  by (induction xs arbitrary: l) simp_all

lemma walk_mono:
  assumes "dirs f \<subseteq> dirs g" and "walk f l cs = Inr d"
  shows "walk g l cs = Inr d"
  using assms(2)
proof (induction cs arbitrary: l)
  case Nil
  then show ?case by simp
next
  case (Cons c cs)
  then show ?case
    using assms(1) by (auto split: if_splits)
qed

lemma locate_mono:
  assumes "dirs f \<subseteq> dirs g" and "locate f wd p = Inr l"
  shows "locate g wd p = Inr l"
proof (cases "parts p = []")
  case True
  with assms(2) show ?thesis by (simp add: locate_def)
next
  case False
  with assms(2) obtain d where d: "walk f (if anchor p = [] then wd else []) (butlast (parts p)) = Inr d"
    and l: "l = (if last (parts p) = ''..'' then butlast d else d @ [last (parts p)])"
    by (auto simp add: locate_def Let_def split: sum.splits)
  from walk_mono [OF assms(1) d] False l show ?thesis
    by (simp add: locate_def Let_def)
qed

lemma locate_dir_walk:
  assumes "locate f wd p = Inr D" and "D \<in> dirs f"
  shows "walk f (if anchor p = [] then wd else []) (parts p) = Inr D"
proof (cases "parts p = []")
  case True
  with assms(1) show ?thesis by (simp add: locate_def)
next
  case False
  with assms(1) obtain d where d: "walk f (if anchor p = [] then wd else []) (butlast (parts p)) = Inr d"
    and D: "D = (if last (parts p) = ''..'' then butlast d else d @ [last (parts p)])"
    by (auto simp add: locate_def Let_def split: sum.splits)
  have "walk f (if anchor p = [] then wd else []) (butlast (parts p) @ [last (parts p)]) = Inr D"
  proof (cases "last (parts p) = ''..''")
    case True
    with d D show ?thesis by (simp add: walk_append)
  next
    case False
    with D assms(2) have "d @ [last (parts p)] \<in> dirs f" "D = d @ [last (parts p)]" by simp_all
    with d False show ?thesis by (simp add: walk_append)
  qed
  with False show ?thesis by simp
qed

lemma locate_child:
  assumes "locate f wd d = Inr D" and "D \<in> dirs f" and "c \<noteq> ''..''"
  shows "locate f wd (Path (anchor d) (parts d @ [c])) = Inr (D @ [c])"
  using locate_dir_walk [OF assms(1,2)] assms(3) by (simp add: locate_def)


lemma parse_path_plain:
  "parse_path ''modelhub.json'' = Path [] [''modelhub.json'']"
  "parse_path ''model.json'' = Path [] [''model.json'']"
  "parse_path ''models.json'' = Path [] [''models.json'']"
  "parse_path ''contrib_src/model/config.json'' = Path [] [''contrib_src'', ''model'', ''config.json'']"
  "parse_path ''init/init.json'' = Path [] [''init'', ''init.json'']"
  by code_simp+

lemma joinpath_plain:
  "joinpath d ''modelhub.json'' = Path (anchor d) (parts d @ [''modelhub.json''])"
  "joinpath d ''model.json'' = Path (anchor d) (parts d @ [''model.json''])"
  "joinpath d ''models.json'' = Path (anchor d) (parts d @ [''models.json''])"
  "joinpath d ''contrib_src/model/config.json''
     = Path (anchor d) (parts d @ [''contrib_src'', ''model'', ''config.json''])"
  "joinpath d ''init/init.json'' = Path (anchor d) (parts d @ [''init'', ''init.json''])"
  by (simp_all add: joinpath_def parse_path_plain)

lemma relative_to_modelhub:
  "relative_to (joinpath d ''modelhub.json'') d = Inr (Path [] [''modelhub.json''])"
  by (simp add: relative_to_def joinpath_plain)

lemma locate_config_last:
  assumes "locate f wd (joinpath r ''contrib_src/model/config.json'') = Inr l"
  obtains d where "l = d @ [''config.json'']"
  using assms by (auto simp add: joinpath_plain locate_def Let_def butlast_append split: sum.splits)

lemma fs_read_InrD:
  assumes "fs_read f wd p = Inr c"
  obtains l where "locate f wd p = Inr l" "l \<notin> dirs f" "files f l = Some c"
  using assms by (auto simp add: fs_read_def split: sum.splits if_splits option.splits)

lemma fs_write_InrD:
  assumes "fs_write f wd p c = Inr f'"
  obtains l where "locate f wd p = Inr l" "l \<notin> dirs f" "f' = f\<lparr>files := (files f)(l \<mapsto> c)\<rparr>"
  using assms by (auto simp add: fs_write_def split: sum.splits if_splits)

lemma fs_mkdir_InrD:
  assumes "fs_mkdir f wd p = Inr f'"
  obtains l where "locate f wd p = Inr l" "l \<in> dirs f'" "files f' = files f"
    "dirs f' = insert l (dirs f)" "l \<in> dirs f \<or> files f l = None"
  using assms by (auto simp add: fs_mkdir_def split: sum.splits if_splits)

lemma file_at_SomeI:
  "locate f wd p = Inr l \<Longrightarrow> l \<notin> dirs f \<Longrightarrow> files f l = Some c \<Longrightarrow> file_at f wd p = Some c"
  by (simp add: file_at_def)

subsection \<open>The metadata step\<close>

lemma write_metadata_result:
  assumes ok: "fst (write_metadata e g name w) = Inr u"
  obtains n doc config j where
    "name = JStr n"
    "file_at (fs w) (cwd w) (config_path n) = Some doc"
    "json_loads e doc = Inr config"
    "Model_as_json e config (Path [] [''modelhub.json'']) g = Inr j"
    "cwd (snd (write_metadata e g name w)) = cwd w"
    "file_at (fs (snd (write_metadata e g name w))) (cwd w) (config_path n) = Some doc"
    "file_at (fs (snd (write_metadata e g name w))) (cwd w) (metadata_path n ''modelhub.json'')
       = Some (json_dumps e config)"
    "file_at (fs (snd (write_metadata e g name w))) (cwd w) (metadata_path n ''model.json'')
       = Some (json_dumps e j)"
proof -
  from ok obtain n where n: "name = JStr n"
    by (cases name) (simp_all add: write_metadata_def then_do_of_result_Inl)
  let ?cfg = "config_path n"
  let ?d = "joinpath json_dir n"
  from ok n obtain doc where doc: "fs_read (fs w) (cwd w) ?cfg = Inr doc"
    by (cases "fs_read (fs w) (cwd w) ?cfg")
       (simp_all add: write_metadata_def then_do_of_result_Inr then_do_def read_text_def config_path_def)
  from ok n doc obtain config where config: "json_loads e doc = Inr config"
    by (cases "json_loads e doc")
       (simp_all add: write_metadata_def then_do_of_result_Inr then_do_def read_text_def
          config_path_def of_result_def)
  from ok n doc config obtain f1 where f1: "fs_mkdir (fs w) (cwd w) ?d = Inr f1"
    by (cases "fs_mkdir (fs w) (cwd w) ?d")
       (simp_all add: write_metadata_def then_do_of_result_Inr then_do_def read_text_def
          config_path_def of_result_def mkdir_exist_ok_def)
  from ok n doc config f1 obtain j where j: "Model_as_json e config (Path [] [''modelhub.json'']) g = Inr j"
    by (cases "Model_as_json e config (Path [] [''modelhub.json'']) g")
       (simp_all add: write_metadata_def then_do_of_result_Inr then_do_def read_text_def
          config_path_def of_result_def mkdir_exist_ok_def relative_to_modelhub)
  from ok n doc config f1 j obtain f2 where f2: "fs_write f1 (cwd w) (joinpath ?d ''model.json'') (json_dumps e j) = Inr f2"
    by (cases "fs_write f1 (cwd w) (joinpath ?d ''model.json'') (json_dumps e j)")
       (simp_all add: write_metadata_def then_do_of_result_Inr then_do_def read_text_def
          config_path_def of_result_def mkdir_exist_ok_def relative_to_modelhub write_text_def)
  from ok n doc config f1 j f2 obtain f3 where f3: "fs_write f2 (cwd w) (joinpath ?d ''modelhub.json'') (json_dumps e config) = Inr f3"
    by (cases "fs_write f2 (cwd w) (joinpath ?d ''modelhub.json'') (json_dumps e config)")
       (simp_all add: write_metadata_def then_do_of_result_Inr then_do_def read_text_def
          config_path_def of_result_def mkdir_exist_ok_def relative_to_modelhub write_text_def)
  have res: "write_metadata e g name w = (Inr (), w\<lparr>fs := f3\<rparr>)"
    using n doc config f1 j f2 f3
    by (simp add: write_metadata_def then_do_of_result_Inr then_do_def read_text_def
          config_path_def of_result_def mkdir_exist_ok_def relative_to_modelhub write_text_def)
  from doc obtain lc where lc: "locate (fs w) (cwd w) ?cfg = Inr lc" "lc \<notin> dirs (fs w)"
      "files (fs w) lc = Some doc"
    by (rule fs_read_InrD)
  from lc(1) obtain dc where dc: "lc = dc @ [''config.json'']"
    unfolding config_path_def by (rule locate_config_last)
  from f1 obtain D where D: "locate (fs w) (cwd w) ?d = Inr D" "D \<in> dirs f1"
      "files f1 = files (fs w)" "dirs f1 = insert D (dirs (fs w))"
      "D \<in> dirs (fs w) \<or> files (fs w) D = None"
    by (rule fs_mkdir_InrD)
  have sub: "dirs (fs w) \<subseteq> dirs f1" using D(4) by auto
  have D1: "locate f1 (cwd w) ?d = Inr D"
    using sub D(1) by (rule locate_mono)
  have l_model: "locate f1 (cwd w) (joinpath ?d ''model.json'') = Inr (D @ [''model.json''])"
    using locate_child [OF D1 D(2), of "''model.json''"] by (simp add: joinpath_plain)
  have l_hub: "locate f1 (cwd w) (joinpath ?d ''modelhub.json'') = Inr (D @ [''modelhub.json''])"
    using locate_child [OF D1 D(2), of "''modelhub.json''"] by (simp add: joinpath_plain)
  from f2 l_model have f2_eq: "f2 = f1\<lparr>files := (files f1)(D @ [''model.json''] \<mapsto> json_dumps e j)\<rparr>"
    and nd_model: "D @ [''model.json''] \<notin> dirs f1"
    by (auto elim!: fs_write_InrD)
  have dirs2: "dirs f2 = dirs f1" by (simp add: f2_eq)
  have l_hub2: "locate f2 (cwd w) (joinpath ?d ''modelhub.json'') = Inr (D @ [''modelhub.json''])"
    using l_hub dirs2 by (auto intro: locate_mono)
  from f3 l_hub2 have f3_eq: "f3 = f2\<lparr>files := (files f2)(D @ [''modelhub.json''] \<mapsto> json_dumps e config)\<rparr>"
    and nd_hub: "D @ [''modelhub.json''] \<notin> dirs f2"
    by (auto elim!: fs_write_InrD)
  have dirs3: "dirs f3 = dirs f1" by (simp add: f3_eq f2_eq)
  have sub3: "dirs (fs w) \<subseteq> dirs f3" "dirs f1 \<subseteq> dirs f3" using sub dirs3 by auto
  have lcD: "lc \<noteq> D" using lc(2,3) D(5) by auto
  have "file_at f3 (cwd w) ?cfg = Some doc"
  proof (rule file_at_SomeI)
    show "locate f3 (cwd w) ?cfg = Inr lc" using sub3(1) lc(1) by (rule locate_mono)
    show "lc \<notin> dirs f3" using lc(2) lcD by (simp add: dirs3 D(4))
    show "files f3 lc = Some doc" using lc(3) by (simp add: f3_eq f2_eq D(3) dc)
  qed
  moreover have "file_at f3 (cwd w) (metadata_path n ''modelhub.json'') = Some (json_dumps e config)"
  proof (rule file_at_SomeI)
    show "locate f3 (cwd w) (metadata_path n ''modelhub.json'') = Inr (D @ [''modelhub.json''])"
      unfolding metadata_path_def using sub3(2) l_hub by (rule locate_mono)
    show "D @ [''modelhub.json''] \<notin> dirs f3" using nd_hub by (simp add: dirs3 dirs2)
    show "files f3 (D @ [''modelhub.json'']) = Some (json_dumps e config)" by (simp add: f3_eq)
  qed
  moreover have "file_at f3 (cwd w) (metadata_path n ''model.json'') = Some (json_dumps e j)"
  proof (rule file_at_SomeI)
    show "locate f3 (cwd w) (metadata_path n ''model.json'') = Inr (D @ [''model.json''])"
      unfolding metadata_path_def using sub3(2) l_model by (rule locate_mono)
    show "D @ [''model.json''] \<notin> dirs f3" using nd_model by (simp add: dirs3)
    show "files f3 (D @ [''model.json'']) = Some (json_dumps e j)" by (simp add: f3_eq f2_eq)
  qed
  moreover have "file_at (fs w) (cwd w) ?cfg = Some doc"
    using lc by (rule file_at_SomeI)
  ultimately show ?thesis
    using that [OF n _ config j] by (simp add: res)
qed


subsection \<open>A completed synchronization\<close>

lemma clone_repo_body_reaches_metadata:
  assumes ok: "fst (clone_repo_body e m w) = Inr u"
  obtains g name wk where
    "py_getitem m ''github'' = Inr g" "py_getitem m ''name'' = Inr name"
    "cwd wk = cwd w" "clone_repo_body e m w = write_metadata e g name wk"
proof -
  from ok obtain g where g: "py_getitem m ''github'' = Inr g"
    by (cases "py_getitem m ''github''") (simp_all add: clone_repo_body_def then_do_of_result_Inl)
  from ok g obtain name where name: "py_getitem m ''name'' = Inr name"
    by (cases "py_getitem m ''name''")
       (simp_all add: clone_repo_body_def then_do_of_result_Inl then_do_of_result_Inr)
  define clone_step where "clone_step =
     (if \<not> env_flag e ''MHTORRENT_SKIP_CLONE''
      then then_do (subprocess_run e
             [JStr ''git'', JStr ''clone'', JStr ''--depth=1'', g, JStr (py_format e name)]) (\<lambda>_. ret ())
      else ret ())"
  define rest where "rest = (\<lambda>_::unit.
     then_do (of_result (path_div repos_dir name)) (\<lambda>repo_root.
     then_do (read_text (joinpath repo_root ''init/init.json'')) (\<lambda>doc.
     then_do (of_result (json_loads e doc)) (\<lambda>data.
     then_do (resolve_assets e repo_root data) (\<lambda>_.
     write_metadata e g name)))))"
  have body: "clone_repo_body e m = then_do clone_step rest"
    using g name by (simp add: clone_repo_body_def then_do_of_result_Inr clone_step_def rest_def)
  have clone_emits: "emits_only (\<lambda>_. True) clone_step"
    unfolding clone_step_def by (intro emits_intros emits_any)
  from ok body obtain x w1 where s1: "clone_step w = (Inr x, w1)" and r1: "clone_repo_body e m w = rest x w1"
    by (auto elim: fst_then_do_InrD)
  have c1: "cwd w1 = cwd w" using clone_emits s1 by (rule emits_cwd)
  from ok r1 obtain repo_root where root: "path_div repos_dir name = Inr repo_root"
    by (cases "path_div repos_dir name") (simp_all add: rest_def then_do_of_result_Inl)
  from ok r1 root obtain doc w2 where s2: "read_text (joinpath repo_root ''init/init.json'') w1 = (Inr doc, w2)"
    and r2: "clone_repo_body e m w =
       then_do (of_result (json_loads e doc)) (\<lambda>data.
       then_do (resolve_assets e repo_root data) (\<lambda>_. write_metadata e g name)) w2"
    by (auto simp add: rest_def then_do_of_result_Inr elim: fst_then_do_InrD)
  have c2: "cwd w2 = cwd w1" using emits_read_text s2 by (rule emits_cwd)
  from ok r2 obtain data where data: "json_loads e doc = Inr data"
    by (cases "json_loads e doc") (simp_all add: then_do_of_result_Inl)
  from ok r2 data obtain y w3 where s3: "resolve_assets e repo_root data w2 = (Inr y, w3)"
    and r3: "clone_repo_body e m w = write_metadata e g name w3"
    by (auto simp add: then_do_of_result_Inr elim: fst_then_do_InrD)
  have c3: "cwd w3 = cwd w2" using emits_any(2) s3 by (rule emits_cwd)
  show ?thesis
    using that [OF g name _ r3] c1 c2 c3 by simp
qed

lemma clone_repo_body_outputs:
  assumes ok: "fst (clone_repo_body e m w) = Inr u"
  shows "outputs_written e m (snd (clone_repo_body e m w))"
proof -
  from ok obtain g name wk where g: "py_getitem m ''github'' = Inr g"
    and name: "py_getitem m ''name'' = Inr name"
    and wk: "cwd wk = cwd w" "clone_repo_body e m w = write_metadata e g name wk"
    by (rule clone_repo_body_reaches_metadata)
  from ok wk have "fst (write_metadata e g name wk) = Inr u" by simp
  then show ?thesis
    by (rule write_metadata_result) (simp add: outputs_written_def g name wk)
qed

subsection \<open>The events of the clone and of a fetch\<close>

lemma run_checked_out: "out (snd (run_checked e args w)) = out w @ [Exec args]"
  by (simp add: run_checked_def Let_def split: prod.splits sum.splits)

lemma subprocess_run_out:
  assumes "as_strs arg_list = Inr args"
  shows "out (snd (subprocess_run e arg_list w))
           = out w @ [Print (''$ '' @ join_sep '' '' args), Exec args]"
  using assms
  by (simp add: subprocess_run_def then_do_of_result_Inr then_do_def py_print_def run_checked_out)

lemma download_file_out:
  "\<exists>evs. out (snd (download_file e src p w))
           = out w @ [Print (''$ wget '' @ src @ '' -O '' @ str_path p),
                      Exec [''wget'', src, ''-O'', str_path p]] @ evs"
proof -
  have args: "as_strs [JStr ''wget'', JStr src, JStr ''-O'', JStr (str_path p)]
                = Inr [''wget'', src, ''-O'', str_path p]"
    by simp
  have js: "''$ '' @ join_sep '' '' [''wget'', src, ''-O'', str_path p]
              = ''$ wget '' @ src @ '' -O '' @ str_path p"
    by simp
  obtain r w1 where r: "subprocess_run e [JStr ''wget'', JStr src, JStr ''-O'', JStr (str_path p)] w = (r, w1)"
    by (cases "subprocess_run e [JStr ''wget'', JStr src, JStr ''-O'', JStr (str_path p)] w")
  with subprocess_run_out [OF args, of e w]
  have w1: "out w1 = out w @ [Print (''$ wget '' @ src @ '' -O '' @ str_path p),
                      Exec [''wget'', src, ''-O'', str_path p]]"
    by (simp only: js) simp
  show ?thesis
    using r w1 by (cases r) (simp_all add: download_file_def then_do_def py_print_def)
qed

lemma resolve_entry_fetches:
  assumes "valid_entry x src dest" and "\<not> env_flag e ''MHTORRENT_SKIP_DOWNLOAD''"
  shows "\<exists>evs. out (snd (resolve_entry e root x w))
           = out w @ fetch_events src (asset_path root dest) @ evs"
proof -
  have eq: "resolve_entry e root x w
        = download_file e src (asset_path root dest)
            (w\<lparr>out := out w @ [Print (''downloading '' @ src @ '' to '' @ str_path (asset_path root dest))]\<rparr>)"
    using assms
    by (simp add: valid_entry_def resolve_entry_def then_do_of_result_Inr Let_def asset_path_def
          then_do_def py_print_def)
  from download_file_out [of e src "asset_path root dest"
      "w\<lparr>out := out w @ [Print (''downloading '' @ src @ '' to '' @ str_path (asset_path root dest))]\<rparr>"]
  show ?thesis
    by (auto simp add: eq fetch_events_def)
qed

lemma resolve_entry_skips_download:
  assumes "valid_entry x src dest" and "env_flag e ''MHTORRENT_SKIP_DOWNLOAD''"
  shows "resolve_entry e root x w = (Inr (), w\<lparr>out := out w @ [Print ''skipping download'']\<rparr>)"
  using assms
  by (simp add: valid_entry_def resolve_entry_def then_do_of_result_Inr Let_def py_print_def)

lemma no_exec_when_skipping:
  assumes "env_flag e ''MHTORRENT_SKIP_DOWNLOAD''"
  shows "filter is_exec (out (snd (resolve_all e root xs w))) = filter is_exec (out w)"
proof -
  have "emits_only is_print (resolve_all e root xs)"
    using assms by (intro emits_resolve_all emits_resolve_entry_skip)
  then obtain evs where evs: "out (snd (resolve_all e root xs w)) = out w @ evs" "list_all is_print evs"
    by (rule emits_out)
  have "filter is_exec evs = []"
    using evs(2) by (induction evs) (auto simp add: is_print_def is_exec_def split: event.splits)
  with evs(1) show ?thesis by simp
qed

lemma reached_entry_fetched:
  assumes "valid_entry x src dest" and "\<not> env_flag e ''MHTORRENT_SKIP_DOWNLOAD''"
    and "fst (resolve_all e root xs w) = Inr ()"
  shows "\<exists>evs. out (snd (resolve_all e root (xs @ x # ys) w))
           = out (snd (resolve_all e root xs w)) @ fetch_events src (asset_path root dest) @ evs"
proof -
  obtain w1 where w1: "resolve_all e root xs w = (Inr (), w1)"
    using assms(3) by (cases "resolve_all e root xs w") auto
  obtain r w2 where w2: "resolve_entry e root x w1 = (r, w2)"
    by (cases "resolve_entry e root x w1")
  from resolve_entry_fetches [OF assms(1,2), of root w1] w2
  obtain evs where evs: "out w2 = out w1 @ fetch_events src (asset_path root dest) @ evs"
    by auto
  have all: "resolve_all e root (xs @ x # ys) w
           = then_do (resolve_entry e root x) (\<lambda>_. resolve_all e root ys) w1"
    using w1 by (simp add: resolve_all_append then_do_def)
  show ?thesis
  proof (cases r)
    case (Inl err)
    with all w1 w2 evs show ?thesis by (auto simp add: then_do_def)
  next
    case (Inr u)
    have "emits_only (\<lambda>_. True) (resolve_all e root ys)"
      by (intro emits_resolve_all emits_resolve_entry) simp_all
    then obtain evs' where "out (snd (resolve_all e root ys w2)) = out w2 @ evs'"
      by (rule emits_out)
    with Inr all w1 w2 evs show ?thesis by (auto simp add: then_do_def)
  qed
qed

lemma clone_step_runs:
  assumes "\<not> env_flag e ''MHTORRENT_SKIP_CLONE''"
    and "py_getitem m ''github'' = Inr (JStr g)" and "py_getitem m ''name'' = Inr name"
  shows "\<exists>evs. out (snd (clone_repo_body e m w)) = out w @ clone_events g (py_format e name) @ evs"
proof -
  let ?args = "[JStr ''git'', JStr ''clone'', JStr ''--depth=1'', JStr g, JStr (py_format e name)]"
  define rest where "rest = (\<lambda>_::int.
     then_do (ret ()) (\<lambda>_.
     then_do (of_result (path_div repos_dir name)) (\<lambda>repo_root.
     then_do (read_text (joinpath repo_root ''init/init.json'')) (\<lambda>doc.
     then_do (of_result (json_loads e doc)) (\<lambda>data.
     then_do (resolve_assets e repo_root data) (\<lambda>_.
     write_metadata e (JStr g) name))))))"
  have body: "clone_repo_body e m = then_do (subprocess_run e ?args) rest"
    using assms
    by (simp add: clone_repo_body_def then_do_of_result_Inr rest_def then_do_assoc)
  have args: "as_strs ?args = Inr [''git'', ''clone'', ''--depth=1'', g, py_format e name]"
    by simp
  obtain r w1 where r: "subprocess_run e ?args w = (r, w1)"
    by (cases "subprocess_run e ?args w")
  with subprocess_run_out [OF args, of e w]
  have w1: "out w1 = out w @ clone_events g (py_format e name)"
    by (simp add: clone_events_def)
  show ?thesis
  proof (cases r)
    case (Inl err)
    with r w1 show ?thesis by (simp add: body then_do_def)
  next
    case (Inr rc)
    have "emits_only (\<lambda>_. True) (rest rc)"
      unfolding rest_def
      by (intro emits_intros emits_resolve_assets emits_resolve_entry emits_write_metadata) simp_all
    then obtain evs where "out (snd (rest rc w1)) = out w1 @ evs"
      by (rule emits_out)
    with Inr r w1 show ?thesis by (simp add: body then_do_def)
  qed
qed

lemma fetch_index_live_out:
  assumes "\<not> env_flag e ''MHTORRENT_USE_LOCAL_MODEL_INDEX''"
  shows "out (snd (fetch_index e w)) = out w @ [HttpGet MODEL_JSON_URL]"
  using assms
  by (simp add: fetch_index_def Let_def get_model_index_def then_do_def requests_get_def
        write_text_def of_result_def split: sum.splits)

lemma fetch_index_cached_out:
  assumes "env_flag e ''MHTORRENT_USE_LOCAL_MODEL_INDEX''"
  shows "snd (fetch_index e w) = w"
  using assms
  by (simp add: fetch_index_def Let_def then_do_def read_text_def of_result_def split: sum.splits)

subsection \<open>A run of the submitted tasks\<close>

lemma run_tasks_Cons:
  "run_tasks e (m # ms) w =
     (fst (clone_repo e m w) # fst (run_tasks e ms (snd (clone_repo e m w))),
      snd (run_tasks e ms (snd (clone_repo e m w))))"
  by (simp add: case_prod_beta)

lemma length_run_tasks: "length (fst (run_tasks e ms w)) = length ms"
  by (induction ms arbitrary: w) (simp_all add: run_tasks_Cons del: run_tasks.simps(2))

lemma clone_repo_outcome:
  "fst (clone_repo e m w) = (if isl (fst (clone_repo_body e m w)) then Failed else Succeeded)"
  by (cases "clone_repo_body e m w"; cases "fst (clone_repo_body e m w)")
     (auto simp add: clone_repo_def handle_errors_def)

lemma clone_repo_reports_failure:
  "fst (clone_repo_body e m w) = Inl err \<Longrightarrow>
     clone_repo e m w
       = (Failed, (snd (clone_repo_body e m w))
                    \<lparr>out := out (snd (clone_repo_body e m w)) @ [Report m err]\<rparr>)"
  by (cases "clone_repo_body e m w") (simp add: clone_repo_def handle_errors_def)

lemma clone_repo_success:
  "\<not> isl (fst (clone_repo_body e m w)) \<Longrightarrow> snd (clone_repo e m w) = snd (clone_repo_body e m w)"
  by (cases "clone_repo_body e m w"; cases "fst (clone_repo_body e m w)")
     (auto simp add: clone_repo_def handle_errors_def)

lemma body_adds_no_report:
  "filter is_report (out (snd (clone_repo_body e m w))) = filter is_report (out w)"
proof -
  have "emits_only (\<lambda>ev. \<not> is_report ev) (clone_repo_body e m)"
    by (rule emits_clone_repo_body) (simp_all add: is_report_def)
  then obtain evs where evs: "out (snd (clone_repo_body e m w)) = out w @ evs"
      "list_all (\<lambda>ev. \<not> is_report ev) evs"
    by (rule emits_out)
  have "filter is_report evs = []"
    using evs(2) by (induction evs) auto
  with evs(1) show ?thesis by simp
qed

lemma clone_repo_report_count:
  "length (filter is_report (out (snd (clone_repo e m w))))
     = length (filter is_report (out w)) + (if fst (clone_repo e m w) = Failed then 1 else 0)"
proof (cases "fst (clone_repo_body e m w)")
  case (Inl err)
  from clone_repo_reports_failure [OF Inl] body_adds_no_report [of e m w]
  show ?thesis by (simp add: is_report_def)
next
  case (Inr u)
  then have "snd (clone_repo e m w) = snd (clone_repo_body e m w)"
    by (intro clone_repo_success) simp
  with Inr body_adds_no_report [of e m w] show ?thesis
    by (simp add: clone_repo_outcome)
qed

lemma run_tasks_report_count:
  "length (filter is_report (out (snd (run_tasks e ms w))))
     = length (filter is_report (out w)) + length (filter (\<lambda>r. r = Failed) (fst (run_tasks e ms w)))"
proof (induction ms arbitrary: w)
  case Nil
  then show ?case by simp
next
  case (Cons m ms)
  show ?case
    using Cons [of "snd (clone_repo e m w)"] clone_repo_report_count [of e m w]
    by (simp add: run_tasks_Cons del: run_tasks.simps(2))
qed

lemma one_failure:
  "k < n \<Longrightarrow> length (filter (\<lambda>r. r = Failed) ((replicate n Succeeded)[k := Failed])) = 1"
proof (induction n arbitrary: k)
  case 0
  then show ?case by simp
next
  case (Suc n)
  then show ?case by (cases k) simp_all
qed

subsection \<open>The start of the script\<close>

lemma script_paths:
  "repos_dir = Path [] [''..'', ''repos'']"
  "json_dir = Path [] [''..'', ''json'']"
  "joinpath curr ''../repos'' = Path [] [''..'', ''repos'']"
  "joinpath curr ''../json'' = Path [] [''..'', ''json'']"
  "joinpath json_dir ''models.json'' = Path [] [''..'', ''json'', ''models.json'']"
  by code_simp+

lemma locate_models_json:
  "locate f wd (joinpath json_dir ''models.json'')
     = (if beside wd [''json''] \<in> dirs f then Inr (beside wd [''json'', ''models.json''])
        else if files f (beside wd [''json'']) \<noteq> None then Inl NotADirectoryError
        else Inl FileNotFoundError)"
  by (simp add: script_paths(5) locate_def beside_def)

lemma locate_dirs:
  "locate f wd (joinpath curr ''../repos'') = Inr (beside wd [''repos''])"
  "locate f wd (joinpath curr ''../json'') = Inr (beside wd [''json''])"
  by (simp_all add: script_paths(3,4) locate_def beside_def)

lemma safe_dir_result:
  assumes "safe_dir whr w = (Inr p, w')" and "locate (fs w) (cwd w) (joinpath curr whr) = Inr l"
  shows "files (fs w') = files (fs w) \<and> cwd w' = cwd w \<and> out w' = out w \<and> pool w' = pool w
       \<and> dirs (fs w) \<subseteq> dirs (fs w') \<and> dirs (fs w') \<subseteq> insert l (dirs (fs w))
       \<and> (l \<in> dirs (fs w) \<or> files (fs w) l = None)"
  using assms
  by (auto simp add: safe_dir_def Let_def then_do_def mkdir_exist_ok_def fs_mkdir_def ret_def
        split: sum.splits if_splits)

lemma safe_dir_error:
  assumes "safe_dir whr w = (Inl err, w')"
  shows "w' = w"
  using assms
  by (auto simp add: safe_dir_def Let_def then_do_def mkdir_exist_ok_def ret_def split: sum.splits)

lemma missing_cache_create:
  assumes "env_flag e ''MHTORRENT_USE_LOCAL_MODEL_INDEX''"
    and "files (fs w) (beside (cwd w) [''json'', ''models.json'']) = None"
    and "beside (cwd w) [''json'', ''models.json''] \<notin> dirs (fs w)"
  shows "create_model_repos e w
           = (Inl (if beside (cwd w) [''json''] \<notin> dirs (fs w)
                      \<and> files (fs w) (beside (cwd w) [''json'']) \<noteq> None
                   then NotADirectoryError else FileNotFoundError), w)"
  using assms
  by (simp add: create_model_repos_def fetch_index_def Let_def then_do_def read_text_def fs_read_def
        locate_models_json)

section \<open>The claims\<close>

text \<open>
  C2 (as the code has it): an entry of \<^verbatim>\<open>external_contrib_files\<close> whose \<^verbatim>\<open>src_url\<close> is a
  string that does not start with \<^verbatim>\<open>http\<close> is skipped: the resolver leaves the state
  as it is (no command is run, nothing is printed, nothing is raised), and the list is
  processed as if the entry were not there. The test is the prefix \<^verbatim>\<open>http\<close>, not
  \<^verbatim>\<open>http://\<close> or \<^verbatim>\<open>https://\<close>.
\<close>

theorem non_http_entry_skipped:
  assumes "py_getitem entry ''src_url'' = Inr (JStr src)" and "\<not> startswith src ''http''"
  shows "resolve_entry e root entry w = (Inr (), w)
       \<and> resolve_all e root (xs @ entry # ys) w = resolve_all e root (xs @ ys) w"
proof -
  have skip: "resolve_entry e root entry = ret ()"
    using assms by (rule resolve_entry_skip)
  have "resolve_all e root (entry # ys) = resolve_all e root ys"
    by (simp add: skip then_do_ret)
  then have "resolve_all e root (xs @ entry # ys) = resolve_all e root (xs @ ys)"
    by (simp only: resolve_all_append)
  with skip show ?thesis by (simp add: ret_def)
qed

theorem non_http_entry_skipped_witness:
  "py_getitem comment_entry ''src_url'' = Inr (JStr ''TODO fill in'')
   \<and> \<not> startswith ''TODO fill in'' ''http''
   \<and> resolve_entry demo_env m1_root comment_entry demo_world = (Inr (), demo_world)
   \<and> resolve_all demo_env m1_root ([asset_entry] @ comment_entry # [asset_entry2]) demo_world
       = resolve_all demo_env m1_root ([asset_entry] @ [asset_entry2]) demo_world"
proof -
  have a: "py_getitem comment_entry ''src_url'' = Inr (JStr ''TODO fill in'')"
    by (simp add: comment_entry_def)
  have b: "\<not> startswith ''TODO fill in'' ''http''"
    by (simp add: startswith_def)
  show ?thesis
    using non_http_entry_skipped [OF a b, of demo_env m1_root demo_world "[asset_entry]" "[asset_entry2]"] a b
    by simp
qed

theorem loose_http_prefix_counterexample:
  "py_getitem loose_entry ''src_url'' = Inr (JStr ''http link pending'')
   \<and> \<not> startswith ''http link pending'' ''http://''
   \<and> \<not> startswith ''http link pending'' ''https://''
   \<and> fst (resolve_entry failing_env m1_root loose_entry demo_world) = Inl (CalledProcessError 1)
   \<and> out (snd (resolve_entry failing_env m1_root loose_entry demo_world))
       = [Print ''downloading http link pending to ../repos/m1/contrib_src/x'',
          Print ''$ wget http link pending -O ../repos/m1/contrib_src/x'',
          Exec [''wget'', ''http link pending'', ''-O'', ''../repos/m1/contrib_src/x'']]"
  by code_simp




text \<open>
  C10: when the init descriptor is an object whose \<^verbatim>\<open>external_contrib_files\<close> key is
  absent, or present with a value Python counts as false (the empty list, \<^verbatim>\<open>null\<close>,
  \<^verbatim>\<open>false\<close>, \<^verbatim>\<open>0\<close>, the empty string or object), the asset step changes nothing and
  raises nothing, and what follows it runs from the same state.
\<close>

theorem empty_asset_list_is_noop:
  assumes "data = JObj kvs"
    and "map_of kvs ''external_contrib_files'' = None
         \<or> (\<exists>v. map_of kvs ''external_contrib_files'' = Some v \<and> \<not> truthy v)"
  shows "resolve_assets e root data w = (Inr (), w)
       \<and> then_do (resolve_assets e root data) (\<lambda>_. write_metadata e g name) w
           = write_metadata e g name w"
proof -
  from assms obtain v where "dict_get data ''external_contrib_files'' = Inr v" "\<not> truthy v"
    by auto
  then show ?thesis
    by (simp add: resolve_assets_def then_do_of_result_Inr ret_def then_do_def)
qed

theorem empty_asset_list_is_noop_witness:
  "resolve_assets demo_env m1_root (JObj [(''external_contrib_files'', JArr [])]) demo_world
     = (Inr (), demo_world)
   \<and> resolve_assets demo_env m1_root (JObj [(''external_contrib_files'', JNull)]) demo_world
     = (Inr (), demo_world)
   \<and> resolve_assets demo_env m1_root (JObj []) demo_world = (Inr (), demo_world)
   \<and> then_do (resolve_assets demo_env m1_root (JObj [(''external_contrib_files'', JArr [])]))
        (\<lambda>_. write_metadata demo_env (JStr ''https://x/m1.git'') (JStr ''m1'')) demo_world
     = write_metadata demo_env (JStr ''https://x/m1.git'') (JStr ''m1'') demo_world"
  using empty_asset_list_is_noop [of "JObj [(''external_contrib_files'', JArr [])]"
          "[(''external_contrib_files'', JArr [])]" demo_env m1_root demo_world
          "JStr ''https://x/m1.git''" "JStr ''m1''"]
        empty_asset_list_is_noop [of "JObj [(''external_contrib_files'', JNull)]"
          "[(''external_contrib_files'', JNull)]" demo_env m1_root demo_world]
        empty_asset_list_is_noop [of "JObj []" "[]" demo_env m1_root demo_world]
  by simp




text \<open>
  C6 (as the code has it): a descriptor that is an object without a \<^verbatim>\<open>github\<close> key makes
  \<^verbatim>\<open>clone_repo\<close> raise \<^verbatim>\<open>KeyError\<close> at its first statement: the state is untouched (no
  clone is attempted), and the wrapper turns the exception into a failure of this
  package. The code has no test for an empty URL.
\<close>

theorem missing_github_fails_before_clone:
  assumes "model_meta = JObj kvs" and "map_of kvs ''github'' = None"
  shows "clone_repo_body e model_meta w = (Inl (KeyError ''github''), w)
       \<and> clone_repo e model_meta w
           = (Failed, w\<lparr>out := out w @ [Report model_meta (KeyError ''github'')]\<rparr>)"
  using assms
  by (simp add: clone_repo_def handle_errors_def clone_repo_body_def then_do_of_result_Inl)

theorem missing_github_fails_before_clone_witness:
  "clone_repo_body demo_env no_url_meta demo_world = (Inl (KeyError ''github''), demo_world)
   \<and> clone_repo demo_env no_url_meta demo_world
       = (Failed, demo_world\<lparr>out := out demo_world @ [Report no_url_meta (KeyError ''github'')]\<rparr>)"
  using missing_github_fails_before_clone [of no_url_meta "[(''name'', JStr ''m1'')]" demo_env demo_world]
  by (simp add: no_url_meta_def)

theorem empty_github_url_counterexample:
  "py_getitem empty_url_meta ''github'' = Inr (JStr [])
   \<and> fst (clone_repo_body failing_env empty_url_meta demo_world) = Inl (CalledProcessError 1)
   \<and> out (snd (clone_repo_body failing_env empty_url_meta demo_world))
       = [Print ''$ git clone --depth=1  m1'', Exec [''git'', ''clone'', ''--depth=1'', [], ''m1'']]
   \<and> fst (clone_repo_body skipping_env empty_url_meta demo_world) = Inr ()"
  by code_simp

text \<open>
  C7: with the cached-index switch set and no file at \<^verbatim>\<open>json_dir / "models.json"\<close>,
  \<^verbatim>\<open>create_model_repos\<close> raises from the state it started in: no task is submitted. The
  exception is \<^verbatim>\<open>FileNotFoundError\<close>, or \<^verbatim>\<open>NotADirectoryError\<close> when \<^verbatim>\<open>json_dir\<close> itself is
  a regular file. The script as a whole then ends with an exception as well, with no task
  submitted and no event.
\<close>

theorem missing_cache_aborts_run:
  assumes "env_flag e ''MHTORRENT_USE_LOCAL_MODEL_INDEX''"
    and "files (fs w) (beside (cwd w) [''json'', ''models.json'']) = None"
    and "beside (cwd w) [''json'', ''models.json''] \<notin> dirs (fs w)"
  shows "create_model_repos e w
           = (Inl (if beside (cwd w) [''json''] \<notin> dirs (fs w)
                      \<and> files (fs w) (beside (cwd w) [''json'']) \<noteq> None
                   then NotADirectoryError else FileNotFoundError), w)
       \<and> isl (fst (main e w)) \<and> pool (snd (main e w)) = pool w \<and> out (snd (main e w)) = out w"
proof -
  have first: "create_model_repos e w
           = (Inl (if beside (cwd w) [''json''] \<notin> dirs (fs w)
                      \<and> files (fs w) (beside (cwd w) [''json'']) \<noteq> None
                   then NotADirectoryError else FileNotFoundError), w)"
    using assms by (rule missing_cache_create)
  have second: "isl (fst (main e w)) \<and> pool (snd (main e w)) = pool w \<and> out (snd (main e w)) = out w"
  proof (cases "safe_dir ''../repos'' w")
    case (Pair r1 w1)
    show ?thesis
    proof (cases r1)
      case (Inl err)
      with Pair have "w1 = w" by (auto dest: safe_dir_error)
      with Pair Inl show ?thesis by (simp add: main_def then_do_def)
    next
      case (Inr p1)
      note s1 = safe_dir_result [OF Pair [unfolded Inr] locate_dirs(1)]
      show ?thesis
      proof (cases "safe_dir ''../json'' w1")
        case (Pair r2 w2)
        show ?thesis
        proof (cases r2)
          case (Inl err)
          with Pair have "w2 = w1" by (auto dest: safe_dir_error)
          with Pair Inl \<open>safe_dir ''../repos'' w = (r1, w1)\<close> Inr s1 show ?thesis
            by (simp add: main_def then_do_def)
        next
          case (Inr p2)
          note s2 = safe_dir_result [OF Pair [unfolded Inr] locate_dirs(2)]
          have "files (fs w2) (beside (cwd w2) [''json'', ''models.json'']) = None"
            using assms(2) s1 s2 by simp
          moreover have "beside (cwd w2) [''json'', ''models.json''] \<notin> dirs (fs w2)"
            using assms(3) s1 s2 by (auto simp add: beside_def)
          ultimately have "\<exists>err. create_model_repos e w2 = (Inl err, w2)"
            using assms(1) by (blast dest: missing_cache_create)
          with Pair Inr \<open>safe_dir ''../repos'' w = (r1, w1)\<close> \<open>r1 = Inr p1\<close> s1 s2 show ?thesis
            by (auto simp add: main_def then_do_def)
        qed
      qed
    qed
  qed
  from first second show ?thesis by simp
qed

theorem missing_cache_aborts_run_witness:
  "env_flag skipping_env ''MHTORRENT_USE_LOCAL_MODEL_INDEX''
   \<and> files (fs demo_world) (beside (cwd demo_world) [''json'', ''models.json'']) = None
   \<and> beside (cwd demo_world) [''json'', ''models.json''] \<notin> dirs (fs demo_world)
   \<and> create_model_repos skipping_env demo_world = (Inl FileNotFoundError, demo_world)
   \<and> isl (fst (main skipping_env demo_world))
   \<and> pool (snd (main skipping_env demo_world)) = pool demo_world
   \<and> out (snd (main skipping_env demo_world)) = out demo_world"
proof -
  have a: "env_flag skipping_env ''MHTORRENT_USE_LOCAL_MODEL_INDEX''"
    by code_simp
  have b: "files (fs demo_world) (beside (cwd demo_world) [''json'', ''models.json'']) = None"
    by code_simp
  have c: "beside (cwd demo_world) [''json'', ''models.json''] \<notin> dirs (fs demo_world)"
    by code_simp
  have d: "beside (cwd demo_world) [''json''] \<in> dirs (fs demo_world)"
    by code_simp
  from missing_cache_aborts_run [OF a b c] a b c d show ?thesis by simp
qed

text \<open>
  C8: a live fetch (switch unset) whose request is answered and whose write succeeds
  leaves the response body at \<^verbatim>\<open>json_dir / "models.json"\<close>, the path a run with the
  switch set reads; such a run (with the same \<^verbatim>\<open>json\<close> module) started in the state the
  live fetch left obtains the same index, or the same parse error, as the live fetch did.
\<close>

theorem live_fetch_then_cached_read:
  assumes "\<not> env_flag e_live ''MHTORRENT_USE_LOCAL_MODEL_INDEX''"
    and "env_flag e_cached ''MHTORRENT_USE_LOCAL_MODEL_INDEX''"
    and "json_loads e_cached = json_loads e_live"
    and "http_get e_live MODEL_JSON_URL = Inr body"
    and "fs_write (fs w) (cwd w) (joinpath json_dir ''models.json'') body = Inr f"
  shows "fs_read (fs (snd (fetch_index e_live w))) (cwd w) (joinpath json_dir ''models.json'')
           = Inr body
       \<and> fst (fetch_index e_live w) = json_loads e_live body
       \<and> fst (fetch_index e_cached (snd (fetch_index e_live w))) = fst (fetch_index e_live w)"
proof -
  let ?p = "joinpath json_dir ''models.json''"
  from assms(5) obtain l where l: "locate (fs w) (cwd w) ?p = Inr l" "l \<notin> dirs (fs w)"
    and f: "f = (fs w)\<lparr>files := (files (fs w))(l \<mapsto> body)\<rparr>"
    by (rule fs_write_InrD)
  have live: "fetch_index e_live w
                = (json_loads e_live body, w\<lparr>out := out w @ [HttpGet MODEL_JSON_URL], fs := f\<rparr>)"
    using assms(1,4,5)
    by (simp add: fetch_index_def get_model_index_def then_do_def requests_get_def write_text_def
          of_result_def Let_def)
  have "dirs (fs w) \<subseteq> dirs f" by (simp add: f)
  then have "locate f (cwd w) ?p = Inr l"
    using l(1) by (rule locate_mono)
  then have rd: "fs_read f (cwd w) ?p = Inr body"
    using l(2) by (simp add: f fs_read_def)
  have cached: "fetch_index e_cached (w\<lparr>out := out w @ [HttpGet MODEL_JSON_URL], fs := f\<rparr>)
                 = (json_loads e_live body, w\<lparr>out := out w @ [HttpGet MODEL_JSON_URL], fs := f\<rparr>)"
    using assms(2,3) rd
    by (simp add: fetch_index_def then_do_def read_text_def of_result_def Let_def)
  show ?thesis
    by (simp add: live cached rd)
qed

theorem live_fetch_then_cached_read_witness:
  "\<not> env_flag demo_env ''MHTORRENT_USE_LOCAL_MODEL_INDEX''
   \<and> env_flag skipping_env ''MHTORRENT_USE_LOCAL_MODEL_INDEX''
   \<and> json_loads skipping_env = json_loads demo_env
   \<and> http_get demo_env MODEL_JSON_URL = Inr index_doc
   \<and> \<not> isl (fs_write (fs demo_world) (cwd demo_world) (joinpath json_dir ''models.json'') index_doc)
   \<and> fs_read (fs (snd (fetch_index demo_env demo_world))) (cwd demo_world)
        (joinpath json_dir ''models.json'') = Inr index_doc
   \<and> fst (fetch_index demo_env demo_world) = json_loads demo_env index_doc
   \<and> fst (fetch_index skipping_env (snd (fetch_index demo_env demo_world)))
       = fst (fetch_index demo_env demo_world)
   \<and> json_loads demo_env index_doc = Inr (JArr [m1_meta])"
proof -
  have a: "\<not> env_flag demo_env ''MHTORRENT_USE_LOCAL_MODEL_INDEX''"
    by code_simp
  have b: "env_flag skipping_env ''MHTORRENT_USE_LOCAL_MODEL_INDEX''"
    by code_simp
  have m: "json_loads skipping_env = json_loads demo_env"
    by (simp add: skipping_env_def)
  have c: "http_get demo_env MODEL_JSON_URL = Inr index_doc"
    by (simp add: demo_env_def)
  have d: "\<not> isl (fs_write (fs demo_world) (cwd demo_world) (joinpath json_dir ''models.json'') index_doc)"
    by code_simp
  then obtain f where f: "fs_write (fs demo_world) (cwd demo_world) (joinpath json_dir ''models.json'') index_doc = Inr f"
    by (cases "fs_write (fs demo_world) (cwd demo_world) (joinpath json_dir ''models.json'') index_doc") auto
  have e: "json_loads demo_env index_doc = Inr (JArr [m1_meta])"
    by code_simp
  from live_fetch_then_cached_read [OF a b m c f] a b m c d e show ?thesis by simp
qed

text \<open>
  C9 (as the code has it): with the cached-index switch unset the index is requested from
  its URL, and with it set nothing is requested; with the clone switch unset
  \<^verbatim>\<open>clone_repo\<close> begins by running \<^verbatim>\<open>git clone\<close>; with the download switch set a valid
  entry only prints the diagnostic and no command is run for any entry of the list; with
  it unset a valid entry that the loop reaches is announced and fetched with \<^verbatim>\<open>wget\<close>,
  right after what the entries before it did. The loop reaches an entry when the entries
  before it did not raise, and it ends where an entry raises: the entries after that one
  are not looked at.
\<close>

theorem switches_default_to_action:
  "(\<not> env_flag e ''MHTORRENT_USE_LOCAL_MODEL_INDEX'' \<longrightarrow>
        out (snd (fetch_index e w)) = out w @ [HttpGet MODEL_JSON_URL])
   \<and> (env_flag e ''MHTORRENT_USE_LOCAL_MODEL_INDEX'' \<longrightarrow> snd (fetch_index e w) = w)
   \<and> (\<not> env_flag e ''MHTORRENT_SKIP_CLONE''
        \<and> py_getitem m ''github'' = Inr (JStr g) \<and> py_getitem m ''name'' = Inr name \<longrightarrow>
        (\<exists>evs. out (snd (clone_repo_body e m w)) = out w @ clone_events g (py_format e name) @ evs))
   \<and> (env_flag e ''MHTORRENT_SKIP_DOWNLOAD'' \<longrightarrow>
        filter is_exec (out (snd (resolve_all e root xs w))) = filter is_exec (out w)
        \<and> (valid_entry x src dest \<longrightarrow>
             resolve_entry e root x w = (Inr (), w\<lparr>out := out w @ [Print ''skipping download'']\<rparr>)))
   \<and> (\<not> env_flag e ''MHTORRENT_SKIP_DOWNLOAD'' \<and> valid_entry x src dest \<longrightarrow>
        (\<exists>evs. out (snd (resolve_entry e root x w))
                 = out w @ fetch_events src (asset_path root dest) @ evs)
        \<and> (fst (resolve_all e root xs w) = Inr () \<longrightarrow>
             (\<exists>evs. out (snd (resolve_all e root (xs @ x # ys) w))
                      = out (snd (resolve_all e root xs w))
                        @ fetch_events src (asset_path root dest) @ evs)))
   \<and> (isl (fst (resolve_all e root xs w)) \<longrightarrow>
        resolve_all e root (xs @ ys) w = resolve_all e root xs w)"
  using fetch_index_live_out [of e w] fetch_index_cached_out [of e w]
    clone_step_runs [of e m g name w] no_exec_when_skipping [of e root xs w]
    resolve_entry_skips_download [of x src dest e root w]
    resolve_entry_fetches [of x src dest e root w]
    reached_entry_fetched [of x src dest e root xs w ys]
    resolve_all_stops [of e root xs w ys]
  by simp

theorem switches_default_to_action_witness:
  "\<not> env_flag demo_env ''MHTORRENT_USE_LOCAL_MODEL_INDEX''
   \<and> out (snd (fetch_index demo_env demo_world)) = out demo_world @ [HttpGet MODEL_JSON_URL]
   \<and> env_flag skipping_env ''MHTORRENT_USE_LOCAL_MODEL_INDEX''
   \<and> snd (fetch_index skipping_env demo_world) = demo_world
   \<and> \<not> env_flag demo_env ''MHTORRENT_SKIP_CLONE''
   \<and> py_getitem m1_meta ''github'' = Inr (JStr ''https://x/m1.git'')
   \<and> py_getitem m1_meta ''name'' = Inr (JStr ''m1'')
   \<and> (\<exists>evs. out (snd (clone_repo_body demo_env m1_meta demo_world))
         = out demo_world @ clone_events ''https://x/m1.git'' ''m1'' @ evs)
   \<and> env_flag skipping_env ''MHTORRENT_SKIP_DOWNLOAD''
   \<and> filter is_exec (out (snd (resolve_all skipping_env m1_root [asset_entry, asset_entry2] demo_world)))
       = filter is_exec (out demo_world)
   \<and> valid_entry asset_entry ''https://x/a.bin'' ''/contrib_src/a.bin''
   \<and> resolve_entry skipping_env m1_root asset_entry demo_world
       = (Inr (), demo_world\<lparr>out := out demo_world @ [Print ''skipping download'']\<rparr>)
   \<and> \<not> env_flag demo_env ''MHTORRENT_SKIP_DOWNLOAD''
   \<and> valid_entry asset_entry2 ''https://x/b.bin'' ''contrib_src/b.bin''
   \<and> (\<exists>evs. out (snd (resolve_entry demo_env m1_root asset_entry2 demo_world))
         = out demo_world
           @ fetch_events ''https://x/b.bin'' (asset_path m1_root ''contrib_src/b.bin'') @ evs)
   \<and> fst (resolve_all demo_env m1_root [asset_entry] demo_world) = Inr ()
   \<and> (\<exists>evs. out (snd (resolve_all demo_env m1_root ([asset_entry] @ asset_entry2 # []) demo_world))
         = out (snd (resolve_all demo_env m1_root [asset_entry] demo_world))
           @ fetch_events ''https://x/b.bin'' (asset_path m1_root ''contrib_src/b.bin'') @ evs)
   \<and> isl (fst (resolve_all failing_env m1_root [asset_entry] demo_world))
   \<and> resolve_all failing_env m1_root ([asset_entry] @ [asset_entry2]) demo_world
       = resolve_all failing_env m1_root [asset_entry] demo_world"
proof -
  have flags: "\<not> env_flag demo_env ''MHTORRENT_USE_LOCAL_MODEL_INDEX''"
    "\<not> env_flag demo_env ''MHTORRENT_SKIP_CLONE''"
    "\<not> env_flag demo_env ''MHTORRENT_SKIP_DOWNLOAD''"
    "env_flag skipping_env ''MHTORRENT_SKIP_DOWNLOAD''"
    "env_flag skipping_env ''MHTORRENT_USE_LOCAL_MODEL_INDEX''"
    by code_simp+
  have meta: "py_getitem m1_meta ''github'' = Inr (JStr ''https://x/m1.git'')"
    "py_getitem m1_meta ''name'' = Inr (JStr ''m1'')"
    by (simp_all add: m1_meta_def)
  have valid: "valid_entry asset_entry ''https://x/a.bin'' ''/contrib_src/a.bin''"
    "valid_entry asset_entry2 ''https://x/b.bin'' ''contrib_src/b.bin''"
    by (simp_all add: valid_entry_def asset_entry_def asset_entry2_def startswith_def)
  have reach: "fst (resolve_all demo_env m1_root [asset_entry] demo_world) = Inr ()"
    by code_simp
  note live = switches_default_to_action [of demo_env demo_world m1_meta "''https://x/m1.git''"
      "JStr ''m1''" m1_root "[asset_entry]" asset_entry2 "''https://x/b.bin''" "''contrib_src/b.bin''" "[]"]
  note skip = switches_default_to_action [of skipping_env demo_world m1_meta "''https://x/m1.git''"
      "JStr ''m1''" m1_root "[asset_entry, asset_entry2]" asset_entry "''https://x/a.bin''"
      "''/contrib_src/a.bin''" "[]"]
  from live flags meta valid reach
  have l1: "out (snd (fetch_index demo_env demo_world)) = out demo_world @ [HttpGet MODEL_JSON_URL]"
    and l2: "\<exists>evs. out (snd (clone_repo_body demo_env m1_meta demo_world))
         = out demo_world @ clone_events ''https://x/m1.git'' ''m1'' @ evs"
    and l3: "\<exists>evs. out (snd (resolve_entry demo_env m1_root asset_entry2 demo_world))
         = out demo_world
           @ fetch_events ''https://x/b.bin'' (asset_path m1_root ''contrib_src/b.bin'') @ evs"
    and l4: "\<exists>evs. out (snd (resolve_all demo_env m1_root ([asset_entry] @ asset_entry2 # []) demo_world))
         = out (snd (resolve_all demo_env m1_root [asset_entry] demo_world))
           @ fetch_events ''https://x/b.bin'' (asset_path m1_root ''contrib_src/b.bin'') @ evs"
    by simp_all
  from skip flags valid
  have s0: "snd (fetch_index skipping_env demo_world) = demo_world"
    and s1: "filter is_exec (out (snd (resolve_all skipping_env m1_root [asset_entry, asset_entry2] demo_world)))
       = filter is_exec (out demo_world)"
    and s2: "resolve_entry skipping_env m1_root asset_entry demo_world
       = (Inr (), demo_world\<lparr>out := out demo_world @ [Print ''skipping download'']\<rparr>)"
    by blast+
  have stop: "isl (fst (resolve_all failing_env m1_root [asset_entry] demo_world))"
    by code_simp
  note failing = switches_default_to_action [of failing_env demo_world m1_meta "''https://x/m1.git''"
      "JStr ''m1''" m1_root "[asset_entry]" asset_entry2 "''https://x/b.bin''"
      "''contrib_src/b.bin''" "[asset_entry2]"]
  from failing stop
  have f1: "resolve_all failing_env m1_root ([asset_entry] @ [asset_entry2]) demo_world
       = resolve_all failing_env m1_root [asset_entry] demo_world"
    by blast
  from flags meta valid reach l1 l2 l3 l4 s0 s1 s2 stop f1 show ?thesis
    by blast
qed

theorem failed_fetch_stops_loop_counterexample:
  "\<not> env_flag failing_env ''MHTORRENT_SKIP_DOWNLOAD''
   \<and> valid_entry asset_entry ''https://x/a.bin'' ''/contrib_src/a.bin''
   \<and> valid_entry asset_entry2 ''https://x/b.bin'' ''contrib_src/b.bin''
   \<and> fst (resolve_all failing_env m1_root [asset_entry, asset_entry2] demo_world)
       = Inl (CalledProcessError 1)
   \<and> out (snd (resolve_all failing_env m1_root [asset_entry, asset_entry2] demo_world))
       = [Print ''downloading https://x/a.bin to ../repos/m1/contrib_src/a.bin'',
          Print ''$ wget https://x/a.bin -O ../repos/m1/contrib_src/a.bin'',
          Exec [''wget'', ''https://x/a.bin'', ''-O'', ''../repos/m1/contrib_src/a.bin'']]
   \<and> Exec [''wget'', ''https://x/b.bin'', ''-O'', ''../repos/m1/contrib_src/b.bin'']
       \<notin> set (out (snd (resolve_all failing_env m1_root [asset_entry, asset_entry2] demo_world)))"
  by code_simp

text \<open>
  C4: what \<^verbatim>\<open>create_model_repos\<close> does with an index of one package. It returns the
  unit value once the task is submitted: the task is in the pool, the only event so far is
  the request for the index (no command of the task has run, no report exists), and the
  result carries no outcome of any package.
\<close>

theorem create_model_repos_returns_after_submitting:
  "fst (create_model_repos demo_env demo_world) = Inr ()
   \<and> pool (snd (create_model_repos demo_env demo_world)) = [m1_meta]
   \<and> out (snd (create_model_repos demo_env demo_world)) = [HttpGet MODEL_JSON_URL]"
  by code_simp

end
